theory Spec2Isabelle
  imports Main "HOL-Library.Word" "HOL-Library.Monad_Syntax"
begin

section \<open>Browser platform: Web Storage\<close>

text \<open>
  \<^verbatim>\<open>sessionStorage\<close> and \<^verbatim>\<open>localStorage\<close> are key/value stores of strings.
  \<^verbatim>\<open>getItem\<close> returns \<^verbatim>\<open>null\<close> (here \<open>None\<close>) for a missing key.
\<close>

type_synonym web_storage = "string \<rightharpoonup> string"

definition getItem :: "web_storage \<Rightarrow> string \<Rightarrow> string option" where
  "getItem s k = s k"

definition setItem :: "web_storage \<Rightarrow> string \<Rightarrow> string \<Rightarrow> web_storage" where
  "setItem s k v = s(k \<mapsto> v)"

definition removeItem :: "web_storage \<Rightarrow> string \<Rightarrow> web_storage" where
  "removeItem s k = s(k := None)"

text \<open>
  JavaScript truthiness of a \<^verbatim>\<open>string | null | undefined\<close> value: \<^verbatim>\<open>null\<close>,
  \<^verbatim>\<open>undefined\<close> and the empty string are falsy.
\<close>

fun truthy :: "string option \<Rightarrow> bool" where
  "truthy None = False"
| "truthy (Some s) = (s \<noteq> [])"

text \<open>
  A thrown JavaScript value: an \<^verbatim>\<open>Error\<close> object with its \<^verbatim>\<open>message\<close>, or any other
  value, kept as its \<^verbatim>\<open>String(...)\<close> rendering.
\<close>

datatype thrown = JsError string | JsValue string

section \<open>Credentials (components/CredentialForm.tsx)\<close>

text \<open>
  The \<^verbatim>\<open>Credentials\<close> interface. An optional member \<^verbatim>\<open>f?: T\<close> is a \<open>T option\<close>, with
  \<open>None\<close> for \<^verbatim>\<open>undefined\<close>. The member \<^verbatim>\<open>type\<close> is kept as the string it is at run time.
\<close>

record filesystem_creds =
  syncPath :: string

record webdav_creds =
  webdav_username :: string
  webdav_password :: string
  webdav_path :: string
  ignoreTlsErrors :: "bool option"

record onedrive_creds =
  clientId :: "string option"
  clientSecret :: "string option"
  authToken :: "string option"
  isPublic :: "bool option"
  redirectUri :: "string option"
  basePath :: "string option"

record joplinserver_creds =
  joplinserver_username :: string
  joplinserver_password :: string
  joplinserver_path :: string
  userContentPath :: string

record googledrive_creds =
  googledrive_clientId :: "string option"
  googledrive_clientSecret :: "string option"
  googledrive_authToken :: "string option"
  googledrive_isPublic :: "bool option"

record credentials =
  type :: string
  filesystem :: "filesystem_creds option"
  webdav :: "webdav_creds option"
  onedrive :: "onedrive_creds option"
  joplinserver :: "joplinserver_creds option"
  googledrive :: "googledrive_creds option"

section \<open>Profiles (services/profileManager.ts)\<close>

record profile =
  profileId :: string
  name :: string
  profileType :: string
  profileCredentials :: credentials
  lastUsed :: nat
  createdAt :: nat

text \<open>
  The token response (\<^verbatim>\<open>OneDriveAuthToken\<close> in services/oneDriveOAuth.ts) and the two
  members that \<^verbatim>\<open>exchangeCodeForToken\<close> reads from the JSON body of an error response.
\<close>

record OneDriveAuthToken =
  access_token :: string
  refresh_token :: string
  token_type :: string
  expires_in :: nat
  scope :: string

record oauth_error_body =
  body_error :: "string option"
  body_error_description :: "string option"

text \<open>
  \<^verbatim>\<open>JSON.stringify\<close> and \<^verbatim>\<open>JSON.parse\<close> belong to the browser, not to the repository:
  they are parameters of the model. \<^verbatim>\<open>JSON.parse\<close> either throws or yields a value; the
  model reads that value at the type the calling code casts it to. For the body of an
  error response the value may also be \<^verbatim>\<open>null\<close>, here \<open>None\<close>, of which no member can
  be read.
\<close>

record json_codec =
  stringify_credentials :: "credentials \<Rightarrow> string"
  parse_credentials :: "string \<Rightarrow> thrown + credentials"
  stringify_profile :: "profile \<Rightarrow> string"
  parse_profile :: "string \<Rightarrow> thrown + profile"
  stringify_token :: "OneDriveAuthToken \<Rightarrow> string"
  parse_token :: "string \<Rightarrow> thrown + OneDriveAuthToken"
  parse_error_body :: "string \<Rightarrow> thrown + oauth_error_body option"

definition STORAGE_KEY_PREFIX :: string where
  "STORAGE_KEY_PREFIX = ''joplin_profile_''"

definition ACTIVE_PROFILE_KEY :: string where
  "ACTIVE_PROFILE_KEY = ''joplin_active_profile''"

definition saveProfile :: "json_codec \<Rightarrow> profile \<Rightarrow> web_storage \<Rightarrow> web_storage" where
  "saveProfile J p ls = setItem ls (STORAGE_KEY_PREFIX @ profileId p) (stringify_profile J p)"

definition getProfile :: "json_codec \<Rightarrow> web_storage \<Rightarrow> string \<Rightarrow> profile option" where
  "getProfile J ls pid =
     (let data = getItem ls (STORAGE_KEY_PREFIX @ pid) in
      if \<not> truthy data then None
      else (case parse_profile J (the data) of
              Inr p \<Rightarrow> Some p
            | Inl error \<Rightarrow> None))"

definition getActiveProfileId :: "web_storage \<Rightarrow> string option" where
  "getActiveProfileId ls = getItem ls ACTIVE_PROFILE_KEY"

definition clearActiveProfile :: "web_storage \<Rightarrow> web_storage" where
  "clearActiveProfile ls = removeItem ls ACTIVE_PROFILE_KEY"

definition deleteProfile :: "string \<Rightarrow> web_storage \<Rightarrow> web_storage" where
  "deleteProfile pid ls =
     (let ls1 = removeItem ls (STORAGE_KEY_PREFIX @ pid);
          activeProfileId = getActiveProfileId ls1
      in if activeProfileId = Some pid then clearActiveProfile ls1 else ls1)"

text \<open>\<^verbatim>\<open>Date.now()\<close> is the argument \<open>now\<close>.\<close>

definition setActiveProfile :: "json_codec \<Rightarrow> nat \<Rightarrow> string \<Rightarrow> web_storage \<Rightarrow> web_storage" where
  "setActiveProfile J now pid ls =
     (let ls1 = setItem ls ACTIVE_PROFILE_KEY pid in
      case getProfile J ls1 pid of
        Some p \<Rightarrow> saveProfile J (p\<lparr>lastUsed := now\<rparr>) ls1
      | None \<Rightarrow> ls1)"

definition getActiveProfile :: "json_codec \<Rightarrow> web_storage \<Rightarrow> profile option" where
  "getActiveProfile J ls =
     (let pid = getActiveProfileId ls in
      if \<not> truthy pid then None else getProfile J ls (the pid))"

text \<open>
  \<^verbatim>\<open>createProfile(credentials)\<close> as the application calls it, without a name. The three
  readings of \<^verbatim>\<open>Date.now()\<close> are the arguments \<open>t0\<close>, \<open>t1\<close>, \<open>t2\<close>; \<open>rnd\<close> is
  \<^verbatim>\<open>Math.random().toString(36).substr(2, 9)\<close>, \<open>date\<close> is
  \<^verbatim>\<open>new Date().toLocaleDateString()\<close> and \<open>show_t0\<close> the decimal rendering of \<open>t0\<close>.
\<close>

definition createProfile ::
  "string \<Rightarrow> string \<Rightarrow> string \<Rightarrow> nat \<Rightarrow> nat \<Rightarrow> credentials \<Rightarrow> profile" where
  "createProfile show_t0 rnd date t1 t2 creds =
     \<lparr> profileId = ''profile_'' @ show_t0 @ ''_'' @ rnd,
       name = type creds @ '' - '' @ date,
       profileType = type creds,
       profileCredentials = creds,
       lastUsed = t1,
       createdAt = t2 \<rparr>"

section \<open>The storage service (services/joplinApi.ts)\<close>

text \<open>
  \<^verbatim>\<open>StorageAPI\<close> comes from the external library \<^verbatim>\<open>joplin-sync\<close>. The model keeps the
  arguments the constructor is called with, and takes as parameters whether the constructor
  and \<^verbatim>\<open>init()\<close> throw.
\<close>

datatype storage_options =
    FilesystemOptions string
  | WebDAVOptions string string string bool
  | OneDriveOptions "string option" "string option" "string option" bool bool
      "string option" "string option"
  | JoplinServerOptions string string string string
  | GoogleDriveOptions "string option" "string option" "string option" bool

record storage_api =
  storage_kind :: string
  storage_opts :: storage_options

record joplin_sync =
  StorageAPI_throws :: "string \<Rightarrow> storage_options \<Rightarrow> thrown option"
  init_throws :: "storage_api \<Rightarrow> thrown option"

record JoplinApiService =
  storage :: "storage_api option"
  initialized :: bool
  oauthFlowHandler :: bool

text \<open>\<^verbatim>\<open>x || ""\<close> on an optional string, \<^verbatim>\<open>x || false\<close> and \<^verbatim>\<open>x ?? true\<close> on an optional boolean.\<close>

fun or_empty :: "string option \<Rightarrow> string" where
  "or_empty None = []"
| "or_empty (Some s) = s"

fun or_false :: "bool option \<Rightarrow> bool" where
  "or_false None = False"
| "or_false (Some b) = b"

fun nullish_true :: "bool option \<Rightarrow> bool" where
  "nullish_true None = True"
| "nullish_true (Some b) = b"

text \<open>The chain of \<^verbatim>\<open>if (type === ...)\<close> tests: the arguments of \<^verbatim>\<open>new StorageAPI\<close>.\<close>

definition storage_arguments ::
  "JoplinApiService \<Rightarrow> credentials \<Rightarrow> thrown + string \<times> storage_options" where
  "storage_arguments api creds =
     (if type creds = ''FileSystem'' then
        Inr (''FileSystem'',
             FilesystemOptions (or_empty (map_option syncPath (filesystem creds))))
      else if type creds = ''WebDAV'' then
        Inr (''WebDAV'',
             WebDAVOptions (or_empty (map_option webdav_username (webdav creds)))
                           (or_empty (map_option webdav_password (webdav creds)))
                           (or_empty (map_option webdav_path (webdav creds)))
                           (or_false (Option.bind (webdav creds) ignoreTlsErrors)))
      else if type creds = ''OneDrive'' then
        Inr (''OneDrive'',
             OneDriveOptions (Option.bind (onedrive creds) clientId)
                             (Option.bind (onedrive creds) clientSecret)
                             (Option.bind (onedrive creds) authToken)
                             (nullish_true (Option.bind (onedrive creds) isPublic))
                             (oauthFlowHandler api)
                             (Option.bind (onedrive creds) redirectUri)
                             (Option.bind (onedrive creds) basePath))
      else if type creds = ''JoplinServer'' then
        Inr (''JoplinServer'',
             JoplinServerOptions
               (or_empty (map_option joplinserver_username (joplinserver creds)))
               (or_empty (map_option joplinserver_password (joplinserver creds)))
               (or_empty (map_option joplinserver_path (joplinserver creds)))
               (or_empty (map_option userContentPath (joplinserver creds))))
      else if type creds = ''GoogleDrive'' then
        Inr (''GoogleDrive'',
             GoogleDriveOptions (Option.bind (googledrive creds) googledrive_clientId)
                                (Option.bind (googledrive creds) googledrive_clientSecret)
                                (Option.bind (googledrive creds) googledrive_authToken)
                                (nullish_true (Option.bind (googledrive creds) googledrive_isPublic)))
      else Inl (JsError (''Unsupported storage type: '' @ type creds)))"

text \<open>
  The body of the \<^verbatim>\<open>try\<close> block of \<^verbatim>\<open>connect\<close>: the result is what was thrown, if anything,
  and the service as the body left it at that point.
\<close>

definition connect_body ::
  "joplin_sync \<Rightarrow> credentials \<Rightarrow> JoplinApiService \<Rightarrow> thrown option \<times> JoplinApiService" where
  "connect_body L creds api =
     (case storage_arguments api creds of
        Inl error \<Rightarrow> (Some error, api)
      | Inr (kind, opts) \<Rightarrow>
          (case StorageAPI_throws L kind opts of
             Some error \<Rightarrow> (Some error, api)
           | None \<Rightarrow>
               (let st = \<lparr> storage_kind = kind, storage_opts = opts \<rparr>;
                    api1 = api\<lparr>storage := Some st\<rparr>
                in case init_throws L st of
                     Some error \<Rightarrow> (Some error, api1)
                   | None \<Rightarrow> (None, api1\<lparr>initialized := True\<rparr>))))"

fun error_text :: "thrown \<Rightarrow> string" where
  "error_text (JsError message) = message"
| "error_text (JsValue rendering) = rendering"

definition connect ::
  "joplin_sync \<Rightarrow> credentials \<Rightarrow> JoplinApiService \<Rightarrow> thrown option \<times> JoplinApiService" where
  "connect L creds api =
     (case connect_body L creds api of
        (None, api1) \<Rightarrow> (None, api1)
      | (Some error, api1) \<Rightarrow>
          (Some (JsError (''Failed to connect to '' @ type creds @ '': '' @ error_text error)),
           api1\<lparr>storage := None, initialized := False\<rparr>))"

definition isInitialized :: "JoplinApiService \<Rightarrow> bool" where
  "isInitialized api = initialized api"

definition disconnect :: "JoplinApiService \<Rightarrow> JoplinApiService" where
  "disconnect api = api\<lparr>storage := None, initialized := False\<rparr>"

section \<open>Browser platform: JSON\<close>

text \<open>
  \<^verbatim>\<open>JSON.stringify\<close> and \<^verbatim>\<open>JSON.parse\<close> on the values that credentials are made of:
  \<^verbatim>\<open>null\<close>, booleans, strings and objects. An object is the list of its members in the
  order in which they are written. Numbers and arrays are left out; \<open>JSON_parse\<close>
  answers \<open>None\<close>, the \<^verbatim>\<open>SyntaxError\<close> of the browser, for a text that has one.
\<close>

datatype json = JNull | JBool bool | JString string | JObject members
  and members = MNil | MCons string json members

text \<open>
  \<^verbatim>\<open>QuoteJSONString\<close>: the quotation mark, the backslash and the control characters are
  escaped, the latter as \<^verbatim>\<open>\b \t \n \f \r\<close> or as \<^verbatim>\<open>\u00XX\<close> with lower-case digits.
\<close>

definition lower_hex_digit :: "nat \<Rightarrow> char" where
  "lower_hex_digit n = ''0123456789abcdef'' ! n"

definition escape :: "char \<Rightarrow> string" where
  "escape c =
     (let n = (of_char c :: nat) in
      if n = 8 then [CHR 0x5C, CHR ''b'']
      else if n = 9 then [CHR 0x5C, CHR ''t'']
      else if n = 10 then [CHR 0x5C, CHR ''n'']
      else if n = 12 then [CHR 0x5C, CHR ''f'']
      else if n = 13 then [CHR 0x5C, CHR ''r'']
      else if n = 34 then [CHR 0x5C, CHR 0x22]
      else if n = 92 then [CHR 0x5C, CHR 0x5C]
      else if n < 32 then
        [CHR 0x5C, CHR ''u'', CHR ''0'', CHR ''0'',
         lower_hex_digit (n div 16), lower_hex_digit (n mod 16)]
      else [c])"

definition quote :: "string \<Rightarrow> string" where
  "quote s = CHR 0x22 # concat (map escape s) @ [CHR 0x22]"

text \<open>
  \<^verbatim>\<open>JSON.stringify(value)\<close>, without indentation: the members of an object are separated
  by commas, a name from its value by a colon, and nothing else is written between them.
\<close>

primrec JSON_stringify :: "json \<Rightarrow> string"
  and stringify_members :: "members \<Rightarrow> string" where
  "JSON_stringify JNull = ''null''"
| "JSON_stringify (JBool b) = (if b then ''true'' else ''false'')"
| "JSON_stringify (JString s) = quote s"
| "JSON_stringify (JObject ms) = ''{'' @ stringify_members ms @ ''}''"
| "stringify_members MNil = []"
| "stringify_members (MCons k v ms) =
     quote k @ '':'' @ JSON_stringify v
     @ (case ms of MNil \<Rightarrow> [] | MCons k2 v2 ms2 \<Rightarrow> '','' @ stringify_members ms)"

text \<open>
  \<^verbatim>\<open>JSON.parse(text)\<close>. White space (space, tab, line feed, carriage return) may stand
  before every token. \<open>parse_chars\<close> reads a string from behind its opening quotation
  mark to its closing one; an escape \<^verbatim>\<open>\uXXXX\<close> beyond code unit 255 has no \<open>char\<close> and
  ends the parse.
\<close>

fun skip_ws :: "string \<Rightarrow> string" where
  "skip_ws [] = []"
| "skip_ws (c # cs) =
     (if (of_char c :: nat) \<in> {32, 9, 10, 13} then skip_ws cs else c # cs)"

definition hex_value :: "char \<Rightarrow> nat option" where
  "hex_value c =
     (let n = (of_char c :: nat) in
      if 48 \<le> n \<and> n \<le> 57 then Some (n - 48)
      else if 97 \<le> n \<and> n \<le> 102 then Some (n - 87)
      else if 65 \<le> n \<and> n \<le> 70 then Some (n - 55)
      else None)"

definition hex4 :: "char \<Rightarrow> char \<Rightarrow> char \<Rightarrow> char \<Rightarrow> nat option" where
  "hex4 a b c d =
     (case (hex_value a, hex_value b, hex_value c, hex_value d) of
        (Some w, Some x, Some y, Some z) \<Rightarrow> Some (((w * 16 + x) * 16 + y) * 16 + z)
      | _ \<Rightarrow> None)"

definition unescape :: "char \<Rightarrow> char option" where
  "unescape e =
     (if e = CHR 0x22 then Some (CHR 0x22)
      else if e = CHR 0x5C then Some (CHR 0x5C)
      else if e = CHR ''/'' then Some (CHR ''/'')
      else if e = CHR ''b'' then Some (char_of (8 :: nat))
      else if e = CHR ''f'' then Some (char_of (12 :: nat))
      else if e = CHR ''n'' then Some (char_of (10 :: nat))
      else if e = CHR ''r'' then Some (char_of (13 :: nat))
      else if e = CHR ''t'' then Some (char_of (9 :: nat))
      else None)"

fun parse_chars :: "string \<Rightarrow> (string \<times> string) option" where
  "parse_chars [] = None"
| "parse_chars [c] = (if c = CHR 0x22 then Some ([], []) else None)"
| "parse_chars (c # e # cs) =
     (if c = CHR 0x22 then Some ([], e # cs)
      else if c = CHR 0x5C then
        (if e = CHR ''u'' then
           (case cs of
              w # x # y # z # rest \<Rightarrow>
                (case hex4 w x y z of
                   None \<Rightarrow> None
                 | Some n \<Rightarrow>
                     if n < 256
                     then map_option (\<lambda>(s, r). (char_of n # s, r)) (parse_chars rest)
                     else None)
            | _ \<Rightarrow> None)
         else
           (case unescape e of
              None \<Rightarrow> None
            | Some x \<Rightarrow> map_option (\<lambda>(s, r). (x # s, r)) (parse_chars cs)))
      else if (of_char c :: nat) < 32 then None
      else map_option (\<lambda>(s, r). (c # s, r)) (parse_chars (e # cs)))"

text \<open>
  Values and members are read with fuel, one unit for every value and every member; the
  length of the text is enough, since each of them takes at least one character.
\<close>

fun parse_value :: "nat \<Rightarrow> string \<Rightarrow> (json \<times> string) option"
  and parse_members :: "nat \<Rightarrow> string \<Rightarrow> (members \<times> string) option" where
  "parse_value 0 s = None"
| "parse_value (Suc n) s =
     (case skip_ws s of
        [] \<Rightarrow> None
      | c # cs \<Rightarrow>
          if c = CHR 0x22 then map_option (\<lambda>(x, r). (JString x, r)) (parse_chars cs)
          else if c = CHR ''{'' then
            (case skip_ws cs of
               [] \<Rightarrow> None
             | d # ds \<Rightarrow>
                 if d = CHR ''}'' then Some (JObject MNil, ds)
                 else map_option (\<lambda>(ms, r). (JObject ms, r)) (parse_members n cs))
          else if take 4 (c # cs) = ''true'' then Some (JBool True, drop 4 (c # cs))
          else if take 5 (c # cs) = ''false'' then Some (JBool False, drop 5 (c # cs))
          else if take 4 (c # cs) = ''null'' then Some (JNull, drop 4 (c # cs))
          else None)"
| "parse_members 0 s = None"
| "parse_members (Suc n) s =
     (case skip_ws s of
        [] \<Rightarrow> None
      | c # cs \<Rightarrow>
          if c \<noteq> CHR 0x22 then None
          else
            (case parse_chars cs of
               None \<Rightarrow> None
             | Some (k, r1) \<Rightarrow>
                 (case skip_ws r1 of
                    [] \<Rightarrow> None
                  | colon # r2 \<Rightarrow>
                      if colon \<noteq> CHR '':'' then None
                      else
                        (case parse_value n r2 of
                           None \<Rightarrow> None
                         | Some (v, r3) \<Rightarrow>
                             (case skip_ws r3 of
                                [] \<Rightarrow> None
                              | sep # r4 \<Rightarrow>
                                  if sep = CHR '','' then
                                    map_option (\<lambda>(ms, r). (MCons k v ms, r)) (parse_members n r4)
                                  else if sep = CHR ''}'' then Some (MCons k v MNil, r4)
                                  else None)))))"

definition JSON_parse :: "string \<Rightarrow> json option" where
  "JSON_parse s =
     (case parse_value (length s) s of
        None \<Rightarrow> None
      | Some (j, rest) \<Rightarrow> if skip_ws rest = [] then Some j else None)"

text \<open>
  Reading a member of a parsed object: of two members with the same name the later one
  counts.
\<close>

fun member_get :: "members \<Rightarrow> string \<Rightarrow> json option" where
  "member_get MNil k = None"
| "member_get (MCons k2 v ms) k =
     (case member_get ms k of
        Some x \<Rightarrow> Some x
      | None \<Rightarrow> if k = k2 then Some v else None)"

text \<open>The fuel that reading a value back takes: one unit for every value and every member.\<close>

primrec fuel_of :: "json \<Rightarrow> nat"
  and fuel_of_members :: "members \<Rightarrow> nat" where
  "fuel_of JNull = 1"
| "fuel_of (JBool b) = 1"
| "fuel_of (JString s) = 1"
| "fuel_of (JObject ms) = 1 + fuel_of_members ms"
| "fuel_of_members MNil = 0"
| "fuel_of_members (MCons k v ms) = 1 + fuel_of v + fuel_of_members ms"

section \<open>Credentials as JSON\<close>

text \<open>
  What \<^verbatim>\<open>JSON.stringify\<close> finds in a \<^verbatim>\<open>Credentials\<close> object: its members, written here in
  the order of the interface, where a member that is \<^verbatim>\<open>undefined\<close> is not written.
  Nothing that is read back depends on the order.
\<close>

fun optional :: "string \<Rightarrow> json option \<Rightarrow> members \<Rightarrow> members" where
  "optional k None ms = ms"
| "optional k (Some v) ms = MCons k v ms"

definition json_of_filesystem :: "filesystem_creds \<Rightarrow> json" where
  "json_of_filesystem f = JObject (MCons ''syncPath'' (JString (syncPath f)) MNil)"

definition json_of_webdav :: "webdav_creds \<Rightarrow> json" where
  "json_of_webdav w =
     JObject (MCons ''username'' (JString (webdav_username w))
             (MCons ''password'' (JString (webdav_password w))
             (MCons ''path'' (JString (webdav_path w))
             (optional ''ignoreTlsErrors'' (map_option JBool (ignoreTlsErrors w)) MNil))))"

definition json_of_onedrive :: "onedrive_creds \<Rightarrow> json" where
  "json_of_onedrive od =
     JObject (optional ''clientId'' (map_option JString (clientId od))
             (optional ''clientSecret'' (map_option JString (clientSecret od))
             (optional ''authToken'' (map_option JString (authToken od))
             (optional ''isPublic'' (map_option JBool (isPublic od))
             (optional ''redirectUri'' (map_option JString (redirectUri od))
             (optional ''basePath'' (map_option JString (basePath od)) MNil))))))"

definition json_of_joplinserver :: "joplinserver_creds \<Rightarrow> json" where
  "json_of_joplinserver js =
     JObject (MCons ''username'' (JString (joplinserver_username js))
             (MCons ''password'' (JString (joplinserver_password js))
             (MCons ''path'' (JString (joplinserver_path js))
             (MCons ''userContentPath'' (JString (userContentPath js)) MNil))))"

definition json_of_googledrive :: "googledrive_creds \<Rightarrow> json" where
  "json_of_googledrive gd =
     JObject (optional ''clientId'' (map_option JString (googledrive_clientId gd))
             (optional ''clientSecret'' (map_option JString (googledrive_clientSecret gd))
             (optional ''authToken'' (map_option JString (googledrive_authToken gd))
             (optional ''isPublic'' (map_option JBool (googledrive_isPublic gd)) MNil))))"

definition json_of_credentials :: "credentials \<Rightarrow> json" where
  "json_of_credentials c =
     JObject (MCons ''type'' (JString (type c))
             (optional ''filesystem'' (map_option json_of_filesystem (filesystem c))
             (optional ''webdav'' (map_option json_of_webdav (webdav c))
             (optional ''onedrive'' (map_option json_of_onedrive (onedrive c))
             (optional ''joplinserver'' (map_option json_of_joplinserver (joplinserver c))
             (optional ''googledrive'' (map_option json_of_googledrive (googledrive c))
                MNil))))))"

text \<open>
  Reading a parsed value at the type \<^verbatim>\<open>Credentials\<close>, member by member. A member that is
  absent reads as \<^verbatim>\<open>undefined\<close>. The outer \<open>None\<close> says that the value does not have the
  shape of the interface (a required member is missing, or a member has another type),
  so that the records of the model cannot hold it.
\<close>

definition required_string :: "members \<Rightarrow> string \<Rightarrow> string option" where
  "required_string ms k =
     (case member_get ms k of Some (JString s) \<Rightarrow> Some s | _ \<Rightarrow> None)"

definition optional_string :: "members \<Rightarrow> string \<Rightarrow> string option option" where
  "optional_string ms k =
     (case member_get ms k of
        None \<Rightarrow> Some None
      | Some (JString s) \<Rightarrow> Some (Some s)
      | _ \<Rightarrow> None)"

definition optional_bool :: "members \<Rightarrow> string \<Rightarrow> bool option option" where
  "optional_bool ms k =
     (case member_get ms k of
        None \<Rightarrow> Some None
      | Some (JBool b) \<Rightarrow> Some (Some b)
      | _ \<Rightarrow> None)"

definition optional_object :: "(json \<Rightarrow> 'a option) \<Rightarrow> members \<Rightarrow> string \<Rightarrow> 'a option option" where
  "optional_object read ms k =
     (case member_get ms k of
        None \<Rightarrow> Some None
      | Some j \<Rightarrow> map_option Some (read j))"

fun filesystem_of_json :: "json \<Rightarrow> filesystem_creds option" where
  "filesystem_of_json (JObject ms) =
     do { p \<leftarrow> required_string ms ''syncPath'';
          Some \<lparr> syncPath = p \<rparr> }"
| "filesystem_of_json j = None"

fun webdav_of_json :: "json \<Rightarrow> webdav_creds option" where
  "webdav_of_json (JObject ms) =
     do { u \<leftarrow> required_string ms ''username'';
          p \<leftarrow> required_string ms ''password'';
          q \<leftarrow> required_string ms ''path'';
          i \<leftarrow> optional_bool ms ''ignoreTlsErrors'';
          Some \<lparr> webdav_username = u, webdav_password = p, webdav_path = q,
                 ignoreTlsErrors = i \<rparr> }"
| "webdav_of_json j = None"

fun onedrive_of_json :: "json \<Rightarrow> onedrive_creds option" where
  "onedrive_of_json (JObject ms) =
     do { c \<leftarrow> optional_string ms ''clientId'';
          s \<leftarrow> optional_string ms ''clientSecret'';
          a \<leftarrow> optional_string ms ''authToken'';
          p \<leftarrow> optional_bool ms ''isPublic'';
          r \<leftarrow> optional_string ms ''redirectUri'';
          b \<leftarrow> optional_string ms ''basePath'';
          Some \<lparr> clientId = c, clientSecret = s, authToken = a, isPublic = p,
                 redirectUri = r, basePath = b \<rparr> }"
| "onedrive_of_json j = None"

fun joplinserver_of_json :: "json \<Rightarrow> joplinserver_creds option" where
  "joplinserver_of_json (JObject ms) =
     do { u \<leftarrow> required_string ms ''username'';
          p \<leftarrow> required_string ms ''password'';
          q \<leftarrow> required_string ms ''path'';
          c \<leftarrow> required_string ms ''userContentPath'';
          Some \<lparr> joplinserver_username = u, joplinserver_password = p,
                 joplinserver_path = q, userContentPath = c \<rparr> }"
| "joplinserver_of_json j = None"

fun googledrive_of_json :: "json \<Rightarrow> googledrive_creds option" where
  "googledrive_of_json (JObject ms) =
     do { c \<leftarrow> optional_string ms ''clientId'';
          s \<leftarrow> optional_string ms ''clientSecret'';
          a \<leftarrow> optional_string ms ''authToken'';
          p \<leftarrow> optional_bool ms ''isPublic'';
          Some \<lparr> googledrive_clientId = c, googledrive_clientSecret = s,
                 googledrive_authToken = a, googledrive_isPublic = p \<rparr> }"
| "googledrive_of_json j = None"

fun credentials_of_json :: "json \<Rightarrow> credentials option" where
  "credentials_of_json (JObject ms) =
     do { t \<leftarrow> required_string ms ''type'';
          f \<leftarrow> optional_object filesystem_of_json ms ''filesystem'';
          w \<leftarrow> optional_object webdav_of_json ms ''webdav'';
          od \<leftarrow> optional_object onedrive_of_json ms ''onedrive'';
          js \<leftarrow> optional_object joplinserver_of_json ms ''joplinserver'';
          gd \<leftarrow> optional_object googledrive_of_json ms ''googledrive'';
          Some \<lparr> type = t, filesystem = f, webdav = w, onedrive = od,
                 joplinserver = js, googledrive = gd \<rparr> }"
| "credentials_of_json j = None"

text \<open>
  \<^verbatim>\<open>JSON.stringify(credentials)\<close>, and \<^verbatim>\<open>JSON.parse(text)\<close> read as credentials. The message
  of the \<^verbatim>\<open>SyntaxError\<close> is the engine's and is not modelled. For a text whose value
  does not have the shape of the interface the model answers with an error as well.
\<close>

definition JSON_stringify_credentials :: "credentials \<Rightarrow> string" where
  "JSON_stringify_credentials c = JSON_stringify (json_of_credentials c)"

definition JSON_parse_credentials :: "string \<Rightarrow> thrown + credentials" where
  "JSON_parse_credentials s =
     (case JSON_parse s of
        None \<Rightarrow> Inl (JsError ''SyntaxError'')
      | Some j \<Rightarrow>
          (case credentials_of_json j of
             None \<Rightarrow> Inl (JsError ''not Credentials'')
           | Some c \<Rightarrow> Inr c))"

section \<open>Browser platform: bytes, base64, text and form encoding\<close>

text \<open>
  A \<open>char\<close> stands for one JavaScript code unit below 256, so a \<open>string\<close> of the model is
  a JavaScript string of such units. A \<^verbatim>\<open>Uint8Array\<close> is a list of bytes.
\<close>

type_synonym byte = "8 word"

definition String_fromCharCode :: "byte list \<Rightarrow> string" where
  "String_fromCharCode buffer = map (\<lambda>b. char_of (unat b)) buffer"

text \<open>\<^verbatim>\<open>btoa\<close>: base64 with the standard alphabet and \<^verbatim>\<open>=\<close> padding.\<close>

definition base64_alphabet :: string where
  "base64_alphabet = ''ABCDEFGHIJKLMNOPQRSTUVWXYZabcdefghijklmnopqrstuvwxyz0123456789+/''"

definition base64_digit :: "nat \<Rightarrow> char" where
  "base64_digit n = base64_alphabet ! n"

fun btoa :: "string \<Rightarrow> string" where
  "btoa [] = []"
| "btoa [a] =
     (let x = (of_char a :: nat) in
      [base64_digit (x div 4), base64_digit (x mod 4 * 16), CHR ''='', CHR ''=''])"
| "btoa [a, b] =
     (let x = (of_char a :: nat); y = (of_char b :: nat) in
      [base64_digit (x div 4), base64_digit (x mod 4 * 16 + y div 16),
       base64_digit (y mod 16 * 4), CHR ''=''])"
| "btoa (a # b # c # rest) =
     (let x = (of_char a :: nat); y = (of_char b :: nat); z = (of_char c :: nat) in
      [base64_digit (x div 4), base64_digit (x mod 4 * 16 + y div 16),
       base64_digit (y mod 16 * 4 + z div 64), base64_digit (z mod 64)]) @ btoa rest"

text \<open>
  \<^verbatim>\<open>s.replace(/c/g, d)\<close> for a single character \<open>c\<close>, and \<^verbatim>\<open>s.replace(/=+$/, '')\<close>, which
  removes the run of \<^verbatim>\<open>=\<close> that ends the string.
\<close>

definition replace_all :: "char \<Rightarrow> char \<Rightarrow> string \<Rightarrow> string" where
  "replace_all c d s = map (\<lambda>x. if x = c then d else x) s"

text \<open>The two replacements that make a base64 text URL-safe, taken together.\<close>

definition urlsafe :: "string \<Rightarrow> string" where
  "urlsafe s = replace_all (CHR ''/'') (CHR ''_'') (replace_all (CHR ''+'') (CHR ''-'') s)"

definition strip_trailing_equals :: "string \<Rightarrow> string" where
  "strip_trailing_equals s = rev (dropWhile (\<lambda>x. x = CHR ''='') (rev s))"

text \<open>\<^verbatim>\<open>new TextEncoder().encode(s)\<close>: the UTF-8 bytes of \<open>s\<close>.\<close>

definition utf8_unit :: "char \<Rightarrow> byte list" where
  "utf8_unit c =
     (let n = (of_char c :: nat) in
      if n < 128 then [of_nat n] else [of_nat (192 + n div 64), of_nat (128 + n mod 64)])"

definition TextEncoder_encode :: "string \<Rightarrow> byte list" where
  "TextEncoder_encode s = concat (map utf8_unit s)"

text \<open>
  \<^verbatim>\<open>URLSearchParams.toString()\<close>, the \<^verbatim>\<open>application/x-www-form-urlencoded\<close> serializer:
  the UTF-8 bytes of each name and value, with letters, digits and \<^verbatim>\<open>* - . _\<close> kept, a space
  written \<^verbatim>\<open>+\<close> and every other byte written \<^verbatim>\<open>%XX\<close>; \<^verbatim>\<open>name=value\<close> pairs joined by \<^verbatim>\<open>&\<close>.
\<close>

definition form_safe :: string where
  "form_safe = ''ABCDEFGHIJKLMNOPQRSTUVWXYZabcdefghijklmnopqrstuvwxyz0123456789*-._''"

definition hex_digit :: "nat \<Rightarrow> char" where
  "hex_digit n = ''0123456789ABCDEF'' ! n"

definition form_encode_byte :: "byte \<Rightarrow> string" where
  "form_encode_byte b =
     (let n = unat b in
      if n = 32 then ''+''
      else if n < 128 \<and> char_of n \<in> set form_safe then [char_of n]
      else [CHR ''%'', hex_digit (n div 16), hex_digit (n mod 16)])"

definition form_encode :: "string \<Rightarrow> string" where
  "form_encode s = concat (map form_encode_byte (TextEncoder_encode s))"

fun join :: "string \<Rightarrow> string list \<Rightarrow> string" where
  "join sep [] = []"
| "join sep [x] = x"
| "join sep (x # y # ys) = x @ sep @ join sep (y # ys)"

definition URLSearchParams_toString :: "(string \<times> string) list \<Rightarrow> string" where
  "URLSearchParams_toString params =
     join ''&'' (map (\<lambda>(k, v). form_encode k @ ''='' @ form_encode v) params)"

text \<open>
  \<^verbatim>\<open>crypto.getRandomValues(new Uint8Array(n))\<close>: \<open>n\<close> bytes of the random source \<open>rnd\<close>,
  which is any function from positions to bytes.
\<close>

definition getRandomValues :: "(nat \<Rightarrow> byte) \<Rightarrow> nat \<Rightarrow> byte list" where
  "getRandomValues rnd n = map rnd [0..<n]"

section \<open>The OAuth service (services/oneDriveOAuth.ts)\<close>

record OneDriveOAuthService =
  service_clientId :: string
  service_redirectUri :: string
  service_scope :: string

definition new_OneDriveOAuthService :: "string \<Rightarrow> string \<Rightarrow> OneDriveOAuthService" where
  "new_OneDriveOAuthService cid uri =
     \<lparr> service_clientId = cid, service_redirectUri = uri,
       service_scope = ''files.readwrite offline_access sites.readwrite.all'' \<rparr>"

definition base64URLEncode :: "byte list \<Rightarrow> string" where
  "base64URLEncode buffer =
     strip_trailing_equals
       (replace_all (CHR ''/'') (CHR ''_'')
          (replace_all (CHR ''+'') (CHR ''-'') (btoa (String_fromCharCode buffer))))"

definition generateCodeVerifier :: "(nat \<Rightarrow> byte) \<Rightarrow> string" where
  "generateCodeVerifier rnd = base64URLEncode (getRandomValues rnd 32)"

text \<open>\<^verbatim>\<open>crypto.subtle.digest('SHA-256', data)\<close> is the parameter \<open>sha256\<close>.\<close>

definition generateCodeChallenge :: "(byte list \<Rightarrow> byte list) \<Rightarrow> string \<Rightarrow> string" where
  "generateCodeChallenge sha256 verifier = base64URLEncode (sha256 (TextEncoder_encode verifier))"

record pkce_url =
  authUrl :: string
  codeVerifier :: string

definition getAuthUrlWithPKCE ::
  "(byte list \<Rightarrow> byte list) \<Rightarrow> (nat \<Rightarrow> byte) \<Rightarrow> OneDriveOAuthService \<Rightarrow> pkce_url" where
  "getAuthUrlWithPKCE sha256 rnd svc =
     (let verifier = generateCodeVerifier rnd;
          codeChallenge = generateCodeChallenge sha256 verifier;
          params = [(''client_id'', service_clientId svc),
                    (''scope'', service_scope svc),
                    (''response_type'', ''code''),
                    (''redirect_uri'', service_redirectUri svc),
                    (''prompt'', ''login''),
                    (''code_challenge'', codeChallenge),
                    (''code_challenge_method'', ''S256'')]
      in \<lparr> authUrl = ''https://login.microsoftonline.com/consumers/oauth2/v2.0/authorize?''
                       @ URLSearchParams_toString params,
           codeVerifier = verifier \<rparr>)"

section \<open>Browser platform: fetch\<close>

record http_request =
  request_url :: string
  request_method :: string
  request_headers :: "(string \<times> string) list"
  request_body :: string

record http_response =
  response_ok :: bool
  response_status :: nat
  response_statusText :: string
  response_text :: string

text \<open>\<^verbatim>\<open>await fetch(...)\<close> either rejects (a network failure) or yields a response.\<close>

datatype fetch_result = FetchRejected thrown | FetchResponse http_response

text \<open>
  The string a template literal inserts: the decimal digits of a number, the string itself,
  or \<^verbatim>\<open>undefined\<close>. \<open>js_or\<close> is \<^verbatim>\<open>a || b\<close> on optional strings.
\<close>

fun show_nat :: "nat \<Rightarrow> string" where
  "show_nat n =
     (if n < 10 then [''0123456789'' ! n]
      else show_nat (n div 10) @ [''0123456789'' ! (n mod 10)])"

declare show_nat.simps [simp del]

fun template :: "string option \<Rightarrow> string" where
  "template None = ''undefined''"
| "template (Some s) = s"

definition js_or :: "string option \<Rightarrow> string option \<Rightarrow> string option" where
  "js_or a b = (if truthy a then a else b)"

section \<open>Token exchange (services/oneDriveOAuth.ts)\<close>

text \<open>The request that \<^verbatim>\<open>exchangeCodeForToken\<close> passes to \<^verbatim>\<open>fetch\<close>.\<close>

definition exchange_request :: "OneDriveOAuthService \<Rightarrow> string \<Rightarrow> string \<Rightarrow> http_request" where
  "exchange_request svc code verifier =
     (let tokenUrl = ''https://login.microsoftonline.com/consumers/oauth2/v2.0/token'';
          formData = [(''client_id'', service_clientId svc),
                      (''code'', code),
                      (''redirect_uri'', service_redirectUri svc),
                      (''grant_type'', ''authorization_code''),
                      (''code_verifier'', verifier)]
      in \<lparr> request_url = tokenUrl,
           request_method = ''POST'',
           request_headers = [(''Content-Type'', ''application/x-www-form-urlencoded'')],
           request_body = URLSearchParams_toString formData \<rparr>)"

text \<open>
  What \<^verbatim>\<open>exchangeCodeForToken\<close> makes of the outcome of that \<^verbatim>\<open>fetch\<close>. When the body of
  an error response is the JSON text \<^verbatim>\<open>null\<close>, reading \<^verbatim>\<open>errorJson.error_description\<close>
  throws a \<^verbatim>\<open>TypeError\<close>, which leaves the function like every other exception.
\<close>

definition exchangeCodeForToken ::
  "json_codec \<Rightarrow> fetch_result \<Rightarrow> thrown + OneDriveAuthToken" where
  "exchangeCodeForToken J result =
     (case result of
        FetchRejected error \<Rightarrow> Inl error
      | FetchResponse response \<Rightarrow>
          if \<not> response_ok response then
            (let errorText = response_text response;
                 errorJson = (case parse_error_body J errorText of
                                Inr j \<Rightarrow> j
                              | Inl e \<Rightarrow> Some \<lparr> body_error = Some ''unknown'',
                                               body_error_description = Some errorText \<rparr>)
             in case errorJson of
                  None \<Rightarrow>
                    Inl (JsError ''Cannot read properties of null (reading 'error_description')'')
                | Some parsed \<Rightarrow>
                    Inl (JsError (''OAuth token exchange failed (''
                                  @ show_nat (response_status response) @ ''): ''
                                  @ template (js_or (body_error_description parsed)
                                                    (body_error parsed)))))
          else parse_token J (response_text response))"

section \<open>The stand-alone sign-in component (components/OneDriveAuth.tsx)\<close>

record AuthConfig =
  config_clientId :: string
  scopes :: "string list"
  config_redirectUri :: string
  authority :: string

text \<open>\<open>location\<close> is \<^verbatim>\<open>window.location.origin + window.location.pathname\<close>.\<close>

definition OneDriveAuth_config :: "string \<Rightarrow> string \<Rightarrow> AuthConfig" where
  "OneDriveAuth_config cid location =
     \<lparr> config_clientId = cid,
       scopes = [''Files.ReadWrite'', ''offline_access'', ''Files.ReadWrite.All''],
       config_redirectUri = location,
       authority = ''https://login.microsoftonline.com/common'' \<rparr>"

definition charset :: string where
  "charset = ''ABCDEFGHIJKLMNOPQRSTUVWXYZabcdefghijklmnopqrstuvwxyz0123456789-._~''"

text \<open>The \<^verbatim>\<open>for\<close> loop of \<^verbatim>\<open>generateRandomString\<close>, from index \<open>i\<close> on.\<close>

function generateRandomString_loop :: "byte list \<Rightarrow> nat \<Rightarrow> nat \<Rightarrow> string \<Rightarrow> string" where
  "generateRandomString_loop randomValues len i result =
     (if i < len
      then generateRandomString_loop randomValues len (Suc i)
             (result @ [charset ! (unat (randomValues ! i) mod length charset)])
      else result)"
  by pat_completeness auto
termination
  by (relation "measure (\<lambda>(randomValues, len, i, result). len - i)") auto

declare generateRandomString_loop.simps [simp del]

definition generateRandomString :: "(nat \<Rightarrow> byte) \<Rightarrow> nat \<Rightarrow> string" where
  "generateRandomString rnd len =
     generateRandomString_loop (getRandomValues rnd len) len 0 []"

text \<open>The helper \<^verbatim>\<open>sha256(plain)\<close> of the component.\<close>

definition sha256_base64url :: "(byte list \<Rightarrow> byte list) \<Rightarrow> string \<Rightarrow> string" where
  "sha256_base64url sha256 plain =
     strip_trailing_equals
       (replace_all (CHR ''/'') (CHR ''_'')
          (replace_all (CHR ''+'') (CHR ''-'')
             (btoa (String_fromCharCode (sha256 (TextEncoder_encode plain))))))"

text \<open>
  \<^verbatim>\<open>exchangeCodeForToken(code, config)\<close> of the component, up to its \<^verbatim>\<open>fetch\<close>: the verifier
  is read from \<^verbatim>\<open>sessionStorage\<close>, and the request is built if there is one.
\<close>

definition OneDriveAuth_exchange_request ::
  "web_storage \<Rightarrow> string \<Rightarrow> AuthConfig \<Rightarrow> thrown + http_request" where
  "OneDriveAuth_exchange_request ss code config =
     (let verifier = getItem ss ''pkce_verifier'' in
      if \<not> truthy verifier then Inl (JsError ''PKCE verifier not found. Please try again.'')
      else
        (let tokenUrl = authority config @ ''/oauth2/v2.0/token'';
             body = [(''client_id'', config_clientId config),
                     (''scope'', join '' '' (scopes config)),
                     (''code'', code),
                     (''redirect_uri'', config_redirectUri config),
                     (''grant_type'', ''authorization_code''),
                     (''code_verifier'', the verifier)]
         in Inr \<lparr> request_url = tokenUrl,
                  request_method = ''POST'',
                  request_headers = [(''Content-Type'', ''application/x-www-form-urlencoded'')],
                  request_body = URLSearchParams_toString body \<rparr>))"

section \<open>Vocabulary of the properties\<close>

text \<open>
  The characters a PKCE verifier may use, \<^verbatim>\<open>[A-Z a-z 0-9 - . _ ~]\<close>, as the comment on
  \<^verbatim>\<open>generateCodeVerifier\<close> lists them.
\<close>

definition verifier_charset :: "char set" where
  "verifier_charset =
     set ''ABCDEFGHIJKLMNOPQRSTUVWXYZabcdefghijklmnopqrstuvwxyz0123456789-._~''"

text \<open>
  Base64url without padding, written directly: three bytes give four digits of the
  URL-safe alphabet, a last group of one or two bytes gives two or three digits.
\<close>

definition base64url_alphabet :: string where
  "base64url_alphabet = ''ABCDEFGHIJKLMNOPQRSTUVWXYZabcdefghijklmnopqrstuvwxyz0123456789-_''"

fun base64url_nopad :: "byte list \<Rightarrow> string" where
  "base64url_nopad [] = []"
| "base64url_nopad [a] =
     [base64url_alphabet ! (unat a div 4), base64url_alphabet ! (unat a mod 4 * 16)]"
| "base64url_nopad [a, b] =
     [base64url_alphabet ! (unat a div 4),
      base64url_alphabet ! (unat a mod 4 * 16 + unat b div 16),
      base64url_alphabet ! (unat b mod 16 * 4)]"
| "base64url_nopad (a # b # c # rest) =
     [base64url_alphabet ! (unat a div 4),
      base64url_alphabet ! (unat a mod 4 * 16 + unat b div 16),
      base64url_alphabet ! (unat b mod 16 * 4 + unat c div 64),
      base64url_alphabet ! (unat c mod 64)] @ base64url_nopad rest"

text \<open>
  The field names of a form-encoded body as written: the body is cut at every \<^verbatim>\<open>&\<close>, and
  a field's name is what precedes its first \<^verbatim>\<open>=\<close>.
\<close>

fun split_on :: "char \<Rightarrow> string \<Rightarrow> string list" where
  "split_on c [] = [[]]"
| "split_on c (x # xs) =
     (if x = c then [] # split_on c xs
      else (case split_on c xs of
              [] \<Rightarrow> [[x]]
            | y # ys \<Rightarrow> (x # y) # ys))"

definition form_names :: "string \<Rightarrow> string list" where
  "form_names body = map (takeWhile (\<lambda>x. x \<noteq> CHR ''='')) (split_on (CHR ''&'') body)"

section \<open>Reading items (services/joplinApi.ts)\<close>

text \<open>
  An item of the library, as far as the application looks at it. \<^verbatim>\<open>storage.getItems\<close> is
  the library's; what it yields or throws is the parameter \<open>fetched\<close>.
\<close>

record item =
  item_id :: string
  item_type :: nat

definition getItems :: "thrown + item option list \<Rightarrow> JoplinApiService \<Rightarrow> thrown + item list" where
  "getItems fetched api =
     (case (if storage api = None \<or> \<not> initialized api
            then Inl (JsError ''Storage not initialized. Call connect() first.'')
            else fetched) of
        Inr found \<Rightarrow> Inr (List.map_filter (\<lambda>x. x) found)
      | Inl error \<Rightarrow> Inl (JsError (''Failed to get items: '' @ error_text error)))"

section \<open>The application (App.tsx)\<close>

text \<open>
  What the component works on: the two Web Storage areas, the query of the current URL as
  \<^verbatim>\<open>URLSearchParams\<close> presents it, the address assigned to \<^verbatim>\<open>window.location.href\<close> if
  any, the React state, the \<^verbatim>\<open>joplinApi\<close> singleton, and the requests passed to \<^verbatim>\<open>fetch\<close>
  so far, oldest first.
\<close>

record app =
  sessionStorage :: web_storage
  localStorage :: web_storage
  search :: "(string \<times> string) list"
  href :: "string option"
  currentProfile :: "profile option"
  connected :: bool
  loading :: bool
  error :: "string option"
  items :: "item list"
  api :: JoplinApiService
  requests :: "http_request list"

text \<open>
  What one run of the application code meets outside itself: the browser's JSON functions,
  digest, random source and origin, the library, the answer of the token endpoint, and the
  readings of the clock and of \<^verbatim>\<open>Math.random\<close> that \<^verbatim>\<open>createProfile\<close> and
  \<^verbatim>\<open>setActiveProfile\<close> take, once for the callback and once for \<^verbatim>\<open>handleConnect\<close>.
\<close>

record profile_seed =
  seed_id_time :: nat
  seed_random :: string
  seed_date :: string
  seed_lastUsed :: nat
  seed_createdAt :: nat
  seed_activated :: nat

record world =
  codec :: json_codec
  library :: joplin_sync
  digest :: "byte list \<Rightarrow> byte list"
  random :: "nat \<Rightarrow> byte"
  origin :: string
  token_response :: fetch_result
  fetched_items :: "thrown + item option list"
  callback_seed :: profile_seed
  connect_seed :: profile_seed

definition URLSearchParams_get :: "(string \<times> string) list \<Rightarrow> string \<Rightarrow> string option" where
  "URLSearchParams_get params key = map_of params key"

text \<open>
  \<^verbatim>\<open>createProfile\<close>, \<^verbatim>\<open>saveProfile\<close>, \<^verbatim>\<open>setActiveProfile\<close> and \<^verbatim>\<open>setCurrentProfile\<close>, the four
  statements that both the callback and \<^verbatim>\<open>handleConnect\<close> run to keep a profile.
\<close>

definition keep_profile :: "json_codec \<Rightarrow> profile_seed \<Rightarrow> credentials \<Rightarrow> app \<Rightarrow> app" where
  "keep_profile J seed creds st =
     (let p = createProfile (show_nat (seed_id_time seed)) (seed_random seed) (seed_date seed)
                (seed_lastUsed seed) (seed_createdAt seed) creds;
          ls1 = saveProfile J p (localStorage st);
          ls2 = setActiveProfile J (seed_activated seed) (profileId p) ls1
      in st\<lparr>localStorage := ls2, currentProfile := Some p\<rparr>)"

text \<open>The \<^verbatim>\<open>catch\<close> and \<^verbatim>\<open>finally\<close> blocks of \<^verbatim>\<open>handleConnect\<close>.\<close>

definition handleConnect_catch :: "thrown \<Rightarrow> app \<Rightarrow> app" where
  "handleConnect_catch err st =
     st\<lparr>error := Some (case err of JsError message \<Rightarrow> message
                                  | JsValue v \<Rightarrow> ''Failed to connect''),
        loading := False\<rparr>"

text \<open>
  \<^verbatim>\<open>handleConnect(credentials)\<close>. With OneDrive credentials that carry no token it stores
  the credentials and the verifier and sends the browser to the authorization URL;
  otherwise it connects, reads the items and keeps a profile. Every exception is caught
  inside, so the function yields a state and never throws.
\<close>

definition handleConnect :: "world \<Rightarrow> credentials \<Rightarrow> app \<Rightarrow> app" where
  "handleConnect W credentials st0 =
     (let st = st0\<lparr>loading := True, error := None\<rparr> in
      if type credentials = ''OneDrive'' \<and> onedrive credentials \<noteq> None
         \<and> \<not> truthy (authToken (the (onedrive credentials)))
      then
        (let od = the (onedrive credentials);
             ss1 = setItem (sessionStorage st) ''pending_oauth_credentials''
                     (stringify_credentials (codec W) credentials);
             oauthService = new_OneDriveOAuthService (or_empty (clientId od))
                              (if truthy (redirectUri od) then the (redirectUri od) else origin W);
             pkce = getAuthUrlWithPKCE (digest W) (random W) oauthService;
             ss2 = setItem ss1 ''oauth_code_verifier'' (codeVerifier pkce)
         in st\<lparr>sessionStorage := ss2, href := Some (authUrl pkce), loading := False\<rparr>)
      else
        (let st1 = (if type credentials = ''GoogleDrive''
                    then st\<lparr>sessionStorage :=
                              setItem (sessionStorage st) ''pending_oauth_credentials''
                                (stringify_credentials (codec W) credentials)\<rparr>
                    else st)
         in case connect (library W) credentials (api st1) of
              (Some err, api1) \<Rightarrow> handleConnect_catch err (st1\<lparr>api := api1\<rparr>)
            | (None, api1) \<Rightarrow>
                (case getItems (fetched_items W) api1 of
                   Inl err \<Rightarrow> handleConnect_catch err (st1\<lparr>api := api1\<rparr>)
                 | Inr fetchedItems \<Rightarrow>
                     (let st2 = st1\<lparr>api := api1, items := fetchedItems, connected := True\<rparr>;
                          st3 = keep_profile (codec W) (connect_seed W) credentials st2
                      in st3\<lparr>sessionStorage :=
                                removeItem (sessionStorage st3) ''pending_oauth_credentials'',
                             loading := False\<rparr>))))"

text \<open>The outer \<^verbatim>\<open>catch\<close> block of \<^verbatim>\<open>handleOAuthCallback\<close>.\<close>

definition handleOAuthCallback_catch :: "thrown \<Rightarrow> app \<Rightarrow> app" where
  "handleOAuthCallback_catch err st =
     st\<lparr>error := Some (case err of JsError message \<Rightarrow> message
                                  | JsValue v \<Rightarrow> ''Failed to complete OAuth''),
        sessionStorage :=
          removeItem (removeItem (removeItem (removeItem (sessionStorage st)
            ''pending_oauth_credentials'') ''oauth_code'') ''processed_oauth_code'')
            ''oauth_code_verifier'',
        search := [],
        loading := False\<rparr>"

text \<open>
  \<^verbatim>\<open>handleOAuthCallback\<close> runs in two parts. The first runs from the start to the point
  where \<^verbatim>\<open>exchangeCodeForToken\<close> has passed its request to \<^verbatim>\<open>fetch\<close> and the function
  waits for the answer; it ends there, with the pending credentials it holds, or it ends
  the whole function. The second part runs from the answer of the token endpoint on.
  Other code can run between the two parts, not within either.

  The effect closes over the \<^verbatim>\<open>oauthResolveCallback\<close> of the first render, which is
  \<^verbatim>\<open>null\<close>: the branch for a code without pending credentials only cleans the URL.
  \<^verbatim>\<open>handleConnect\<close> never throws, so the inner \<^verbatim>\<open>catch (connectErr)\<close> has no run.
\<close>

datatype callback_step = Done app | AwaitExchange app credentials

definition handleOAuthCallback_begin :: "world \<Rightarrow> app \<Rightarrow> callback_step" where
  "handleOAuthCallback_begin W st =
     (let code = URLSearchParams_get (search st) ''code'';
          err = URLSearchParams_get (search st) ''error'';
          errorDescription = URLSearchParams_get (search st) ''error_description''
      in
      if truthy err then
        Done (st\<lparr>error := js_or errorDescription err,
                 search := [],
                 sessionStorage := removeItem (sessionStorage st) ''pending_oauth_credentials''\<rparr>)
      else if truthy code then
        (let processedCode = getItem (sessionStorage st) ''processed_oauth_code'' in
         if processedCode = code then Done st
         else
           (let st1 = st\<lparr>sessionStorage :=
                           setItem (sessionStorage st) ''processed_oauth_code'' (the code)\<rparr>;
                pendingCredsJson = getItem (sessionStorage st1) ''pending_oauth_credentials''
            in
            if truthy pendingCredsJson then
              (case parse_credentials (codec W) (the pendingCredsJson) of
                 Inl thrown \<Rightarrow> Done (handleOAuthCallback_catch thrown st1)
               | Inr pendingCreds \<Rightarrow>
                   (let st2 = st1\<lparr>sessionStorage :=
                                   removeItem (sessionStorage st1) ''pending_oauth_credentials'',
                                 search := [],
                                 loading := True\<rparr>
                    in
                    if type pendingCreds = ''OneDrive'' \<and> onedrive pendingCreds \<noteq> None then
                      (let codeVerifier = getItem (sessionStorage st2) ''oauth_code_verifier'' in
                       if \<not> truthy codeVerifier then
                         Done (handleOAuthCallback_catch
                                 (JsError ''PKCE code_verifier not found. Please try logging in again.'')
                                 st2)
                       else
                         (let od = the (onedrive pendingCreds);
                              oauthService = new_OneDriveOAuthService (or_empty (clientId od))
                                  (if truthy (redirectUri od) then the (redirectUri od)
                                   else origin W)
                          in AwaitExchange
                               (st2\<lparr>requests := requests st2
                                        @ [exchange_request oauthService (the code)
                                             (the codeVerifier)]\<rparr>)
                               pendingCreds))
                    else Done (handleConnect W pendingCreds st2)))
            else Done (st1\<lparr>search := []\<rparr>)))
      else Done st)"

definition handleOAuthCallback_resume :: "world \<Rightarrow> credentials \<Rightarrow> app \<Rightarrow> app" where
  "handleOAuthCallback_resume W pendingCreds st =
     (case exchangeCodeForToken (codec W) (token_response W) of
        Inl thrown \<Rightarrow> handleOAuthCallback_catch thrown st
      | Inr tokenData \<Rightarrow>
          (let st1 = st\<lparr>sessionStorage :=
                          removeItem (removeItem (sessionStorage st) ''oauth_code_verifier'')
                            ''processed_oauth_code''\<rparr>;
               withToken = pendingCreds\<lparr>onedrive :=
                             Some ((the (onedrive pendingCreds))
                                     \<lparr>authToken := Some (stringify_token (codec W) tokenData)\<rparr>)\<rparr>;
               st2 = keep_profile (codec W) (callback_seed W) withToken st1
           in handleConnect W withToken st2))"

text \<open>The whole function, when nothing else runs while it waits.\<close>

definition handleOAuthCallback :: "world \<Rightarrow> app \<Rightarrow> app" where
  "handleOAuthCallback W st =
     (case handleOAuthCallback_begin W st of
        Done st1 \<Rightarrow> st1
      | AwaitExchange st1 pendingCreds \<Rightarrow> handleOAuthCallback_resume W pendingCreds st1)"

text \<open>
  Arriving at the application with the query \<open>query\<close>: a page load keeps the two storage
  areas and starts the React state and the service afresh. \<open>deliver\<close> presents the query
  \<^verbatim>\<open>?code=c\<close> to a page that is already loaded.
\<close>

definition page_load :: "(string \<times> string) list \<Rightarrow> app \<Rightarrow> app" where
  "page_load query st =
     \<lparr> sessionStorage = sessionStorage st, localStorage = localStorage st,
       search = query, href = None, currentProfile = None, connected = False,
       loading = False, error = None, items = [],
       api = \<lparr> storage = None, initialized = False, oauthFlowHandler = True \<rparr>,
       requests = requests st \<rparr>"

definition deliver :: "string \<Rightarrow> app \<Rightarrow> app" where
  "deliver c st = st\<lparr>search := [(''code'', c)]\<rparr>"

section \<open>Concrete instances\<close>

text \<open>
  Concrete values at which the theorems below are instantiated: credentials as the form
  builds them for OneDrive, a profile, and a stand-in for the browser's JSON functions that
  knows these two values only.
\<close>

definition example_onedrive :: onedrive_creds where
  "example_onedrive =
     \<lparr> clientId = Some ''client-1'', clientSecret = None, authToken = None,
       isPublic = Some True, redirectUri = Some ''http://localhost:5173'',
       basePath = Some ''/Apps/Joplin'' \<rparr>"

definition example_credentials :: credentials where
  "example_credentials =
     \<lparr> type = ''OneDrive'', filesystem = None, webdav = None,
       onedrive = Some example_onedrive, joplinserver = None, googledrive = None \<rparr>"

definition example_profile :: profile where
  "example_profile =
     \<lparr> profileId = ''profile_1_b'', name = ''OneDrive - 1/1/2026'', profileType = ''OneDrive'',
       profileCredentials = example_credentials, lastUsed = 1, createdAt = 1 \<rparr>"

definition example_token :: OneDriveAuthToken where
  "example_token =
     \<lparr> access_token = ''at'', refresh_token = ''rt'', token_type = ''Bearer'',
       expires_in = 3600, scope = ''files.readwrite offline_access'' \<rparr>"

definition example_codec :: json_codec where
  "example_codec =
     \<lparr> stringify_credentials = (\<lambda>c. if c = example_credentials then ''{creds}'' else ''{}''),
       parse_credentials =
         (\<lambda>s. if s = ''{creds}'' then Inr example_credentials
              else Inl (JsError ''Unexpected token'')),
       stringify_profile = (\<lambda>p. if p = example_profile then ''{profile}'' else ''{}''),
       parse_profile =
         (\<lambda>s. if s = ''{profile}'' then Inr example_profile
              else Inl (JsError ''Unexpected token'')),
       stringify_token = (\<lambda>t. if t = example_token then ''{token}'' else ''{}''),
       parse_token =
         (\<lambda>s. if s = ''{token}'' then Inr example_token
              else Inl (JsError ''Unexpected token'')),
       parse_error_body =
         (\<lambda>s. if s = ''{error}''
              then Inr (Some \<lparr> body_error = Some ''invalid_grant'',
                               body_error_description = Some ''The code has expired'' \<rparr>)
              else if s = ''null'' then Inr None
              else Inl (JsError ''Unexpected token'')) \<rparr>"

definition example_library :: joplin_sync where
  "example_library =
     \<lparr> StorageAPI_throws = (\<lambda>kind opts. None),
       init_throws = (\<lambda>st. Some (JsError ''folder not found'')) \<rparr>"

text \<open>
  A world in which the token endpoint answers with a token and the library's \<open>init\<close>
  fails afterwards, and the application as the browser finds it when the provider has
  sent the user back with \<^verbatim>\<open>?code=abc123\<close>: credentials and verifier are in
  \<^verbatim>\<open>sessionStorage\<close>, nothing else is.
\<close>

definition example_seed :: profile_seed where
  "example_seed =
     \<lparr> seed_id_time = 1760000000000, seed_random = ''k3j9x2m1q'', seed_date = ''1/1/2026'',
       seed_lastUsed = 1760000000000, seed_createdAt = 1760000000000,
       seed_activated = 1760000000001 \<rparr>"

definition example_world :: world where
  "example_world =
     \<lparr> codec = example_codec, library = example_library,
       digest = (\<lambda>data. take 32 data), random = (\<lambda>i. 0),
       origin = ''http://localhost:5173'',
       token_response = FetchResponse \<lparr> response_ok = True, response_status = 200,
                                         response_statusText = ''OK'',
                                         response_text = ''{token}'' \<rparr>,
       fetched_items = Inr [],
       callback_seed = example_seed, connect_seed = example_seed \<rparr>"

definition example_page :: app where
  "example_page =
     \<lparr> sessionStorage = [''pending_oauth_credentials'' \<mapsto> ''{creds}'',
                          ''oauth_code_verifier'' \<mapsto> ''v1''],
       localStorage = Map.empty,
       search = [(''code'', ''abc123'')], href = None, currentProfile = None,
       connected = False, loading = False, error = None, items = [],
       api = \<lparr> storage = None, initialized = False, oauthFlowHandler = True \<rparr>,
       requests = [] \<rparr>"

text \<open>The example world with the browser's JSON functions for credentials.\<close>

definition example_browser_world :: world where
  "example_browser_world =
     example_world\<lparr>codec := example_codec\<lparr>stringify_credentials := JSON_stringify_credentials,
                                              parse_credentials := JSON_parse_credentials\<rparr>\<rparr>"

section \<open>Lemmas on the encodings\<close>

lemma of_char_lt_256: "(of_char c :: nat) < 256"
proof -
  have "(of_char c :: nat) mod 256 = of_char c" by simp
  then show ?thesis by (metis mod_less_divisor zero_less_numeral)
qed

lemma unat_byte_lt_256: "unat (b :: byte) < 256"
  using unsigned_less [of b, where 'a = nat] by simp

lemma unat_byte_mod_256: "unat (b :: byte) mod 256 = unat b"
  using unat_byte_lt_256 [of b] by simp

lemma length_base64_alphabet: "length base64_alphabet = 64"
  by (simp add: base64_alphabet_def)

lemma length_base64url_alphabet: "length base64url_alphabet = 64"
  by (simp add: base64url_alphabet_def)

lemma urlsafe_alphabet:
  "map (\<lambda>x. if x = CHR ''/'' then CHR ''_'' else x)
     (map (\<lambda>x. if x = CHR ''+'' then CHR ''-'' else x) base64_alphabet) = base64url_alphabet"
  by (simp add: base64_alphabet_def base64url_alphabet_def)

lemma urlsafe_digit:
  assumes "n < 64"
  shows "replace_all (CHR ''/'') (CHR ''_'') (replace_all (CHR ''+'') (CHR ''-'') [base64_digit n])
         = [base64url_alphabet ! n]"
proof -
  have "base64url_alphabet ! n =
     (map (\<lambda>x. if x = CHR ''/'' then CHR ''_'' else x)
     (map (\<lambda>x. if x = CHR ''+'' then CHR ''-'' else x) base64_alphabet)) ! n"
    by (simp only: urlsafe_alphabet)
  also have "\<dots> = (\<lambda>x. if x = CHR ''/'' then CHR ''_'' else x)
      ((\<lambda>x. if x = CHR ''+'' then CHR ''-'' else x) (base64_alphabet ! n))"
    using assms by (simp add: length_base64_alphabet)
  finally show ?thesis by (simp add: replace_all_def base64_digit_def)
qed

lemma base64url_digit_not_equals: "n < 64 \<Longrightarrow> base64url_alphabet ! n \<noteq> CHR ''=''"
proof -
  assume "n < 64"
  then have "base64url_alphabet ! n \<in> set base64url_alphabet"
    by (simp add: length_base64url_alphabet)
  moreover have "CHR ''='' \<notin> set base64url_alphabet"
    by (simp add: base64url_alphabet_def)
  ultimately show ?thesis by metis
qed

lemma replace_all_append: "replace_all c d (xs @ ys) = replace_all c d xs @ replace_all c d ys"
  by (simp add: replace_all_def)

lemma replace_all_Cons: "replace_all c d (x # xs) = replace_all c d [x] @ replace_all c d xs"
  by (simp add: replace_all_def)

lemma urlsafe_simps:
  "urlsafe [] = []"
  "urlsafe (xs @ ys) = urlsafe xs @ urlsafe ys"
  "urlsafe [CHR ''=''] = [CHR ''='']"
  by (simp_all add: urlsafe_def replace_all_def)

lemma urlsafe4:
  "urlsafe (w # x # y # z # xs) = urlsafe [w] @ urlsafe [x] @ urlsafe [y] @ urlsafe [z] @ urlsafe xs"
  by (simp add: urlsafe_def replace_all_def)

lemma urlsafe_digit': "n < 64 \<Longrightarrow> urlsafe [base64_digit n] = [base64url_alphabet ! n]"
  by (simp add: urlsafe_def urlsafe_digit)

lemma btoa_urlsafe_shape:
  "urlsafe (btoa (String_fromCharCode buffer))
     = base64url_nopad buffer @ replicate ((3 - length buffer mod 3) mod 3) (CHR ''='')"
proof (induction buffer rule: base64url_nopad.induct)
  case 1
  show ?case by (simp add: String_fromCharCode_def urlsafe_simps)
next
  case (2 a)
  have lt: "unat a div 4 < 64" "unat a mod 4 * 16 < 64"
    using unat_byte_lt_256 [of a] by simp_all
  have "btoa (String_fromCharCode [a])
      = [base64_digit (unat a div 4), base64_digit (unat a mod 4 * 16), CHR ''='', CHR ''='']"
    by (simp add: String_fromCharCode_def unat_byte_mod_256 Let_def)
  then have "urlsafe (btoa (String_fromCharCode [a]))
      = [base64url_alphabet ! (unat a div 4), base64url_alphabet ! (unat a mod 4 * 16),
         CHR ''='', CHR ''='']"
    using lt by (simp only: urlsafe4 urlsafe_digit' urlsafe_simps) simp
  moreover have "(3 - length [a] mod 3) mod 3 = Suc (Suc 0)"
    by simp
  then have "replicate ((3 - length [a] mod 3) mod 3) (CHR ''='') = [CHR ''='', CHR ''='']"
    by (simp only: replicate.simps)
  ultimately show ?case by simp
next
  case (3 a b)
  have lt: "unat a div 4 < 64" "unat a mod 4 * 16 + unat b div 16 < 64" "unat b mod 16 * 4 < 64"
    using unat_byte_lt_256 [of a] unat_byte_lt_256 [of b] by simp_all
  have "btoa (String_fromCharCode [a, b])
      = [base64_digit (unat a div 4), base64_digit (unat a mod 4 * 16 + unat b div 16),
         base64_digit (unat b mod 16 * 4), CHR ''='']"
    by (simp add: String_fromCharCode_def unat_byte_mod_256 Let_def)
  then have "urlsafe (btoa (String_fromCharCode [a, b]))
      = [base64url_alphabet ! (unat a div 4),
         base64url_alphabet ! (unat a mod 4 * 16 + unat b div 16),
         base64url_alphabet ! (unat b mod 16 * 4), CHR ''='']"
    using lt by (simp only: urlsafe4 urlsafe_digit' urlsafe_simps) simp
  moreover have "replicate ((3 - length [a, b] mod 3) mod 3) (CHR ''='') = [CHR ''='']"
    by simp
  ultimately show ?case by simp
next
  case (4 a b c rest)
  have lt: "unat a div 4 < 64" "unat a mod 4 * 16 + unat b div 16 < 64"
    "unat b mod 16 * 4 + unat c div 64 < 64" "unat c mod 64 < 64"
    using unat_byte_lt_256 [of a] unat_byte_lt_256 [of b] unat_byte_lt_256 [of c] by simp_all
  have "btoa (String_fromCharCode (a # b # c # rest))
      = base64_digit (unat a div 4) # base64_digit (unat a mod 4 * 16 + unat b div 16)
        # base64_digit (unat b mod 16 * 4 + unat c div 64) # base64_digit (unat c mod 64)
        # btoa (String_fromCharCode rest)"
    by (simp add: String_fromCharCode_def unat_byte_mod_256 Let_def)
  then have "urlsafe (btoa (String_fromCharCode (a # b # c # rest)))
      = [base64url_alphabet ! (unat a div 4),
         base64url_alphabet ! (unat a mod 4 * 16 + unat b div 16),
         base64url_alphabet ! (unat b mod 16 * 4 + unat c div 64),
         base64url_alphabet ! (unat c mod 64)] @ urlsafe (btoa (String_fromCharCode rest))"
    using lt by (simp only: urlsafe4 urlsafe_digit') simp
  moreover have "length (a # b # c # rest) mod 3 = length rest mod 3"
    by simp
  ultimately show ?case
    using 4 by (simp del: length_Cons)
qed

lemma base64url_nopad_charset: "set (base64url_nopad buffer) \<subseteq> set base64url_alphabet"
proof (induction buffer rule: base64url_nopad.induct)
  case 1
  show ?case by simp
next
  case (2 a)
  have "unat a div 4 < 64" "unat a mod 4 * 16 < 64"
    using unat_byte_lt_256 [of a] by simp_all
  then show ?case by (simp add: length_base64url_alphabet)
next
  case (3 a b)
  have "unat a div 4 < 64" "unat a mod 4 * 16 + unat b div 16 < 64" "unat b mod 16 * 4 < 64"
    using unat_byte_lt_256 [of a] unat_byte_lt_256 [of b] by simp_all
  then show ?case by (simp add: length_base64url_alphabet)
next
  case (4 a b c rest)
  have "unat a div 4 < 64" "unat a mod 4 * 16 + unat b div 16 < 64"
    "unat b mod 16 * 4 + unat c div 64 < 64" "unat c mod 64 < 64"
    using unat_byte_lt_256 [of a] unat_byte_lt_256 [of b] unat_byte_lt_256 [of c] by simp_all
  with 4 show ?case by (simp add: length_base64url_alphabet)
qed

lemma base64url_nopad_length: "length (base64url_nopad buffer) = (4 * length buffer + 2) div 3"
  by (induction buffer rule: base64url_nopad.induct) simp_all

lemma strip_trailing_equals_padding:
  assumes "CHR ''='' \<notin> set body"
  shows "strip_trailing_equals (body @ replicate k (CHR ''='')) = body"
proof -
  have "dropWhile (\<lambda>x. x = CHR ''='') (replicate k (CHR ''='') @ rev body)
        = dropWhile (\<lambda>x. x = CHR ''='') (rev body)"
    by (induction k) simp_all
  moreover have "dropWhile (\<lambda>x. x = CHR ''='') (rev body) = rev body"
  proof (cases "rev body")
    case Nil
    then show ?thesis by simp
  next
    case (Cons y ys)
    then have "y \<in> set (rev body)" by simp
    with assms have "y \<noteq> CHR ''=''" by auto
    with Cons show ?thesis by simp
  qed
  ultimately show ?thesis
    by (simp add: strip_trailing_equals_def)
qed

lemma base64URLEncode_eq: "base64URLEncode buffer = base64url_nopad buffer"
proof -
  have "CHR ''='' \<notin> set base64url_alphabet"
    by (simp add: base64url_alphabet_def)
  with base64url_nopad_charset [of buffer] have "CHR ''='' \<notin> set (base64url_nopad buffer)"
    by blast
  then show ?thesis
    using btoa_urlsafe_shape [of buffer]
    by (simp add: base64URLEncode_def urlsafe_def [symmetric] strip_trailing_equals_padding)
qed

lemma generateCodeVerifier_length: "length (generateCodeVerifier rnd) = 43"
  by (simp add: generateCodeVerifier_def base64URLEncode_eq base64url_nopad_length
      getRandomValues_def)

lemma base64url_alphabet_verifier: "set base64url_alphabet \<subseteq> verifier_charset"
  by (simp add: base64url_alphabet_def verifier_charset_def)

lemma generateRandomString_loop_props:
  "length (generateRandomString_loop rv len i result) = length result + (len - i)
   \<and> set (generateRandomString_loop rv len i result) \<subseteq> set result \<union> set charset"
proof (induction rv len i result rule: generateRandomString_loop.induct)
  case (1 rv len i result)
  show ?case
  proof (cases "i < len")
    case True
    have "length charset = 66"
      by (simp add: charset_def)
    then have mem: "charset ! (unat (rv ! i) mod length charset) \<in> set charset"
      by (intro nth_mem) simp
    have step: "generateRandomString_loop rv len i result
        = generateRandomString_loop rv len (Suc i)
            (result @ [charset ! (unat (rv ! i) mod length charset)])"
      using True by (subst generateRandomString_loop.simps) simp
    from 1 [OF True] mem True show ?thesis
      unfolding step by auto
  next
    case False
    then have "generateRandomString_loop rv len i result = result"
      by (subst generateRandomString_loop.simps) simp
    with False show ?thesis by simp
  qed
qed

lemma charset_verifier: "set charset = verifier_charset"
  by (simp add: charset_def verifier_charset_def)

lemma form_safe_ascii: "c \<in> set form_safe \<Longrightarrow> (of_char c :: nat) < 128 \<and> (of_char c :: nat) \<noteq> 32"
  by (auto simp: form_safe_def)

lemma form_encode_safe_char:
  assumes "c \<in> set form_safe"
  shows "concat (map form_encode_byte (utf8_unit c)) = [c]"
proof -
  from assms have lt: "(of_char c :: nat) < 128" and ne: "(of_char c :: nat) \<noteq> 32"
    using form_safe_ascii by blast+
  then have u: "unat (of_nat (of_char c) :: byte) = of_char c"
    by (simp add: unat_of_nat)
  show ?thesis
    using lt ne assms by (simp add: utf8_unit_def form_encode_byte_def Let_def u)
qed

lemma form_encode_safe: "set s \<subseteq> set form_safe \<Longrightarrow> form_encode s = s"
proof (induction s)
  case Nil
  show ?case by (simp add: form_encode_def TextEncoder_encode_def)
next
  case (Cons c s)
  then have "form_encode s = s" and "c \<in> set form_safe" by simp_all
  then show ?case
    using form_encode_safe_char [of c]
    by (simp add: form_encode_def TextEncoder_encode_def)
qed

lemma hex_digit_mem: "n < 16 \<Longrightarrow> hex_digit n \<in> set ''0123456789ABCDEF''"
  unfolding hex_digit_def by (intro nth_mem) simp

lemma form_encode_byte_chars:
  "set (form_encode_byte b) \<subseteq> set form_safe \<union> set ''+%0123456789ABCDEF''"
proof -
  have "unat b div 16 < 16" "unat b mod 16 < 16"
    using unat_byte_lt_256 [of b] by simp_all
  then have "hex_digit (unat b div 16) \<in> set ''0123456789ABCDEF''"
    "hex_digit (unat b mod 16) \<in> set ''0123456789ABCDEF''"
    by (simp_all only: hex_digit_mem)
  then show ?thesis
    by (auto simp: form_encode_byte_def Let_def)
qed

lemma form_encode_chars: "set (form_encode s) \<subseteq> set form_safe \<union> set ''+%0123456789ABCDEF''"
proof -
  define S where "S = set form_safe \<union> set ''+%0123456789ABCDEF''"
  have "set (form_encode_byte b) \<subseteq> S" for b
    unfolding S_def by (rule form_encode_byte_chars)
  then have "set (concat (map form_encode_byte bs)) \<subseteq> S" for bs
    by (induction bs) simp_all
  then show ?thesis
    unfolding S_def form_encode_def .
qed

lemma form_encode_no_separator:
  "CHR ''&'' \<notin> set (form_encode s)" "CHR ''='' \<notin> set (form_encode s)"
proof -
  have "CHR ''&'' \<notin> set form_safe \<union> set ''+%0123456789ABCDEF''"
    "CHR ''='' \<notin> set form_safe \<union> set ''+%0123456789ABCDEF''"
    by (simp_all add: form_safe_def)
  with form_encode_chars [of s]
  show "CHR ''&'' \<notin> set (form_encode s)" "CHR ''='' \<notin> set (form_encode s)"
    by blast+
qed

lemma split_on_nonempty: "split_on c s \<noteq> []"
  by (induction s) (auto split: list.splits)

lemma split_on_no_separator: "c \<notin> set a \<Longrightarrow> split_on c a = [a]"
  by (induction a) (auto split: list.splits)

lemma split_on_append: "c \<notin> set a \<Longrightarrow> split_on c (a @ c # rest) = a # split_on c rest"
  using split_on_nonempty [of c rest]
  by (induction a) (auto split: list.splits)

lemma split_on_join:
  "parts \<noteq> [] \<Longrightarrow> \<forall>p \<in> set parts. c \<notin> set p \<Longrightarrow> split_on c (join [c] parts) = parts"
proof (induction "[c]" parts rule: join.induct)
  case 1
  then show ?case by simp
next
  case (2 x)
  then show ?case by (simp add: split_on_no_separator)
next
  case (3 x y ys)
  then have "split_on c (join [c] (y # ys)) = y # ys" and "c \<notin> set x" by simp_all
  then show ?case using split_on_append [of c x "join [c] (y # ys)"] by simp
qed

lemma form_names_toString:
  assumes "params \<noteq> []"
  shows "form_names (URLSearchParams_toString params) = map (\<lambda>(k, v). form_encode k) params"
proof -
  let ?parts = "map (\<lambda>(k, v). form_encode k @ ''='' @ form_encode v) params"
  have "\<forall>p \<in> set ?parts. CHR ''&'' \<notin> set p"
    using form_encode_no_separator(1) by auto
  moreover have "?parts \<noteq> []" using assms by simp
  ultimately have "split_on (CHR ''&'') (join ''&'' ?parts) = ?parts"
    by (rule split_on_join [rotated])
  moreover have "takeWhile (\<lambda>x. x \<noteq> CHR ''='') (form_encode k @ ''='' @ form_encode v) = form_encode k"
    for k v
    using form_encode_no_separator(2) [of k]
    by (auto simp: takeWhile_tail takeWhile_eq_all_conv)
  ultimately show ?thesis
    by (simp add: form_names_def URLSearchParams_toString_def split_def comp_def)
qed

lemma base64url_alphabet_form_safe: "set base64url_alphabet \<subseteq> set form_safe"
  by (simp add: base64url_alphabet_def form_safe_def)

lemma form_encode_base64url: "form_encode (base64url_nopad buffer) = base64url_nopad buffer"
  using base64url_nopad_charset [of buffer] base64url_alphabet_form_safe
  by (intro form_encode_safe) blast

lemma form_encode_literals:
  "form_encode ''client_id'' = ''client_id''"
  "form_encode ''scope'' = ''scope''"
  "form_encode ''response_type'' = ''response_type''"
  "form_encode ''redirect_uri'' = ''redirect_uri''"
  "form_encode ''prompt'' = ''prompt''"
  "form_encode ''code_challenge'' = ''code_challenge''"
  "form_encode ''code_challenge_method'' = ''code_challenge_method''"
  "form_encode ''code'' = ''code''"
  "form_encode ''login'' = ''login''"
  "form_encode ''S256'' = ''S256''"
  "form_encode ''grant_type'' = ''grant_type''"
  "form_encode ''code_verifier'' = ''code_verifier''"
  "form_encode ''authorization_code'' = ''authorization_code''"
  by (simp_all add: form_encode_safe form_safe_def)

section \<open>Lemmas on JSON\<close>

lemma hex_value_lower_all: "\<forall>n \<in> set [0..<16]. hex_value (lower_hex_digit n) = Some n"
  by code_simp

lemma hex_value_lower: "n < 16 \<Longrightarrow> hex_value (lower_hex_digit n) = Some n"
  using hex_value_lower_all by simp

lemma hex4_control:
  assumes "n < 32"
  shows "hex4 (CHR ''0'') (CHR ''0'') (lower_hex_digit (n div 16)) (lower_hex_digit (n mod 16)) = Some n"
proof -
  have "n div 16 < 16" "n mod 16 < 16" using assms by simp_all
  then have "hex_value (lower_hex_digit (n div 16)) = Some (n div 16)"
    "hex_value (lower_hex_digit (n mod 16)) = Some (n mod 16)"
    by (simp_all only: hex_value_lower)
  moreover have "hex_value (CHR ''0'') = Some 0"
    by (simp add: hex_value_def)
  ultimately show ?thesis by (simp add: hex4_def)
qed

lemma char_of_quote_backslash:
  "char_of (34::nat) = CHR 0x22" "char_of (92::nat) = CHR 0x5C"
  by (rule of_char_eqI [where ?'a = nat], simp)+

lemma parse_chars_escape:
  assumes "rest \<noteq> []"
  shows "parse_chars (escape c @ rest) = map_option (\<lambda>(s, r). (c # s, r)) (parse_chars rest)"
proof -
  obtain e cs where rest: "rest = e # cs"
    using assms by (cases rest) auto
  let ?n = "of_char c :: nat"
  have known: "parse_chars (escape (char_of k) @ rest)
        = map_option (\<lambda>(s, r). (char_of k # s, r)) (parse_chars rest)"
    if "k \<in> {8, 9, 10, 12, 13, 34, 92}" for k :: nat
    using that by (auto simp: escape_def unescape_def rest char_of_quote_backslash)
  consider (short) "?n \<in> {8, 9, 10, 12, 13, 34, 92}"
    | (control) "?n \<notin> {8, 9, 10, 12, 13, 34, 92}" "?n < 32"
    | (plain) "?n \<notin> {8, 9, 10, 12, 13, 34, 92}" "\<not> ?n < 32"
    by blast
  then show ?thesis
  proof cases
    case short
    from known [OF short] show ?thesis by simp
  next
    case control
    from control have "parse_chars (escape c @ rest)
        = map_option (\<lambda>(s, r). (char_of ?n # s, r)) (parse_chars rest)"
      by (simp add: escape_def Let_def hex4_control)
    then show ?thesis by simp
  next
    case plain
    then have "c \<noteq> CHR 0x22" "c \<noteq> CHR 0x5C"
      by auto
    with plain show ?thesis
      by (simp add: escape_def Let_def rest)
  qed
qed

lemma parse_chars_quote:
  "parse_chars (concat (map escape s) @ CHR 0x22 # rest) = Some (s, rest)"
proof (induction s)
  case Nil
  show ?case by (cases rest) simp_all
next
  case (Cons c s)
  have "parse_chars (escape c @ (concat (map escape s) @ CHR 0x22 # rest))
      = map_option (\<lambda>(s, r). (c # s, r)) (parse_chars (concat (map escape s) @ CHR 0x22 # rest))"
    by (rule parse_chars_escape) simp
  with Cons show ?case by simp
qed

lemma stringify_starts:
  "\<exists>c cs. JSON_stringify j = c # cs \<and> (of_char c :: nat) \<notin> {32, 9, 10, 13}"
  by (cases j) (simp_all add: quote_def)

lemma parse_value_quote:
  "parse_value (Suc n) (quote s @ rest) = Some (JString s, rest)"
  by (simp add: quote_def parse_chars_quote)

lemma parse_round_trip:
  "fuel_of j \<le> n \<Longrightarrow> parse_value n (JSON_stringify j @ rest) = Some (j, rest)"
  "ms \<noteq> MNil \<Longrightarrow> fuel_of_members ms \<le> n \<Longrightarrow>
     parse_members n (stringify_members ms @ CHR ''}'' # rest) = Some (ms, rest)"
proof (induction j and ms arbitrary: n rest and n rest)
  case JNull
  then obtain m where "n = Suc m" by (cases n) auto
  then show ?case by simp
next
  case (JBool b)
  then obtain m where "n = Suc m" by (cases n) auto
  then show ?case by simp
next
  case (JString s)
  then obtain m where "n = Suc m" by (cases n) auto
  then show ?case by (simp only: JSON_stringify.simps parse_value_quote)
next
  case (JObject ms)
  then obtain m where n: "n = Suc m" and m: "fuel_of_members ms \<le> m"
    by (cases n) auto
  show ?case
  proof (cases ms)
    case MNil
    then show ?thesis by (simp add: n)
  next
    case (MCons k v ms2)
    then have "parse_members m (stringify_members ms @ CHR ''}'' # rest) = Some (ms, rest)"
      using JObject.IH [of m rest] m by simp
    moreover have "skip_ws (stringify_members ms @ CHR ''}'' # rest)
        = CHR 0x22 # tl (stringify_members ms @ CHR ''}'' # rest)"
      using MCons by (simp add: quote_def)
    ultimately show ?thesis
      by (simp add: n)
  qed
next
  case MNil
  then show ?case by simp
next
  case (MCons k v ms)
  then obtain m where n: "n = Suc m" and m: "fuel_of v \<le> m" "fuel_of_members ms \<le> m"
    by (cases n) auto
  have member: "parse_members (Suc m) (quote k @ CHR '':'' # JSON_stringify v @ tail)
      = (case skip_ws tail of
           [] \<Rightarrow> None
         | sep # r4 \<Rightarrow>
             if sep = CHR '','' then
               map_option (\<lambda>(ms, r). (MCons k v ms, r)) (parse_members m r4)
             else if sep = CHR ''}'' then Some (MCons k v MNil, r4)
             else None)" for tail
  proof -
    have "parse_chars (concat (map escape k) @ CHR 0x22 # CHR '':'' # JSON_stringify v @ tail)
        = Some (k, CHR '':'' # JSON_stringify v @ tail)"
      by (rule parse_chars_quote)
    moreover have "parse_value m (JSON_stringify v @ tail) = Some (v, tail)"
      using MCons.IH(1) m(1) by simp
    ultimately show ?thesis
      by (simp add: quote_def)
  qed
  show ?case
  proof (cases ms)
    case MNil
    have "stringify_members (MCons k v MNil) @ CHR ''}'' # rest
        = quote k @ CHR '':'' # JSON_stringify v @ (CHR ''}'' # rest)"
      by simp
    then show ?thesis
      unfolding MNil n by (simp only: member) simp
  next
    case (MCons k2 v2 ms2)
    have more: "parse_members m (stringify_members ms @ CHR ''}'' # rest) = Some (ms, rest)"
      using MCons.IH(2) [of m rest] m(2) MCons by simp
    have "stringify_members (MCons k v ms) @ CHR ''}'' # rest
        = quote k @ CHR '':'' # JSON_stringify v
          @ (CHR '','' # (stringify_members ms @ CHR ''}'' # rest))"
      using MCons by simp
    then show ?thesis
      unfolding n by (simp only: member) (simp add: more)
  qed
qed

lemma fuel_le_length:
  "fuel_of j \<le> length (JSON_stringify j)"
  "fuel_of_members ms \<le> length (stringify_members ms)"
proof (induction j and ms)
  case (MCons k v ms)
  then show ?case by (cases ms) (simp_all add: quote_def)
qed (simp_all add: quote_def)

lemma JSON_parse_stringify: "JSON_parse (JSON_stringify j) = Some j"
  using parse_round_trip(1) [OF fuel_le_length(1), of j "[]"]
  by (simp add: JSON_parse_def)

lemma JSON_stringify_nonempty: "JSON_stringify j \<noteq> []"
  using stringify_starts [of j] by auto

lemma member_get_optional_other:
  "k \<noteq> k2 \<Longrightarrow> member_get (optional k2 v ms) k = member_get ms k"
  by (cases v) (simp_all split: option.splits)

lemma member_get_optional_same:
  "member_get ms k = None \<Longrightarrow> member_get (optional k v ms) k = v"
  by (cases v) simp_all

lemma member_get_MCons_other:
  "k \<noteq> k2 \<Longrightarrow> member_get (MCons k2 v ms) k = member_get ms k"
  by (simp split: option.splits)

lemma member_get_MCons_same:
  "member_get ms k = None \<Longrightarrow> member_get (MCons k v ms) k = Some v"
  by simp

lemmas member_get_rules =
  member_get_optional_other member_get_optional_same member_get_MCons_other
  member_get_MCons_same

lemma optional_string_read:
  "member_get ms k = map_option JString x \<Longrightarrow> optional_string ms k = Some x"
  by (cases x) (simp_all add: optional_string_def)

lemma optional_bool_read:
  "member_get ms k = map_option JBool x \<Longrightarrow> optional_bool ms k = Some x"
  by (cases x) (simp_all add: optional_bool_def)

lemma required_string_read:
  "member_get ms k = Some (JString x) \<Longrightarrow> required_string ms k = Some x"
  by (simp add: required_string_def)

lemma optional_object_read:
  "member_get ms k = map_option write x \<Longrightarrow> (\<And>y. read (write y) = Some y)
     \<Longrightarrow> optional_object read ms k = Some x"
  by (cases x) (simp_all add: optional_object_def)

lemma filesystem_round_trip: "filesystem_of_json (json_of_filesystem f) = Some f"
  by (simp add: json_of_filesystem_def required_string_def)

lemma webdav_round_trip: "webdav_of_json (json_of_webdav w) = Some w"
proof -
  let ?ms = "MCons ''username'' (JString (webdav_username w))
             (MCons ''password'' (JString (webdav_password w))
             (MCons ''path'' (JString (webdav_path w))
             (optional ''ignoreTlsErrors'' (map_option JBool (ignoreTlsErrors w)) MNil)))"
  have "member_get ?ms ''username'' = Some (JString (webdav_username w))"
    "member_get ?ms ''password'' = Some (JString (webdav_password w))"
    "member_get ?ms ''path'' = Some (JString (webdav_path w))"
    "member_get ?ms ''ignoreTlsErrors'' = map_option JBool (ignoreTlsErrors w)"
    by (simp_all add: member_get_rules del: member_get.simps(2))
  then have "required_string ?ms ''username'' = Some (webdav_username w)"
    "required_string ?ms ''password'' = Some (webdav_password w)"
    "required_string ?ms ''path'' = Some (webdav_path w)"
    "optional_bool ?ms ''ignoreTlsErrors'' = Some (ignoreTlsErrors w)"
    by (simp_all only: required_string_read optional_bool_read)
  then show ?thesis by (simp add: json_of_webdav_def)
qed

lemma onedrive_round_trip: "onedrive_of_json (json_of_onedrive od) = Some od"
proof -
  let ?ms = "optional ''clientId'' (map_option JString (clientId od))
             (optional ''clientSecret'' (map_option JString (clientSecret od))
             (optional ''authToken'' (map_option JString (authToken od))
             (optional ''isPublic'' (map_option JBool (isPublic od))
             (optional ''redirectUri'' (map_option JString (redirectUri od))
             (optional ''basePath'' (map_option JString (basePath od)) MNil)))))"
  have "member_get ?ms ''clientId'' = map_option JString (clientId od)"
    "member_get ?ms ''clientSecret'' = map_option JString (clientSecret od)"
    "member_get ?ms ''authToken'' = map_option JString (authToken od)"
    "member_get ?ms ''isPublic'' = map_option JBool (isPublic od)"
    "member_get ?ms ''redirectUri'' = map_option JString (redirectUri od)"
    "member_get ?ms ''basePath'' = map_option JString (basePath od)"
    by (simp_all add: member_get_rules del: member_get.simps(2))
  then have "optional_string ?ms ''clientId'' = Some (clientId od)"
    "optional_string ?ms ''clientSecret'' = Some (clientSecret od)"
    "optional_string ?ms ''authToken'' = Some (authToken od)"
    "optional_bool ?ms ''isPublic'' = Some (isPublic od)"
    "optional_string ?ms ''redirectUri'' = Some (redirectUri od)"
    "optional_string ?ms ''basePath'' = Some (basePath od)"
    by (simp_all only: optional_string_read optional_bool_read)
  then show ?thesis by (simp add: json_of_onedrive_def)
qed

lemma joplinserver_round_trip: "joplinserver_of_json (json_of_joplinserver js) = Some js"
proof -
  let ?ms = "MCons ''username'' (JString (joplinserver_username js))
             (MCons ''password'' (JString (joplinserver_password js))
             (MCons ''path'' (JString (joplinserver_path js))
             (MCons ''userContentPath'' (JString (userContentPath js)) MNil)))"
  have "member_get ?ms ''username'' = Some (JString (joplinserver_username js))"
    "member_get ?ms ''password'' = Some (JString (joplinserver_password js))"
    "member_get ?ms ''path'' = Some (JString (joplinserver_path js))"
    "member_get ?ms ''userContentPath'' = Some (JString (userContentPath js))"
    by (simp_all add: member_get_rules del: member_get.simps(2))
  then have "required_string ?ms ''username'' = Some (joplinserver_username js)"
    "required_string ?ms ''password'' = Some (joplinserver_password js)"
    "required_string ?ms ''path'' = Some (joplinserver_path js)"
    "required_string ?ms ''userContentPath'' = Some (userContentPath js)"
    by (simp_all only: required_string_read)
  then show ?thesis by (simp add: json_of_joplinserver_def)
qed

lemma googledrive_round_trip: "googledrive_of_json (json_of_googledrive gd) = Some gd"
proof -
  let ?ms = "optional ''clientId'' (map_option JString (googledrive_clientId gd))
             (optional ''clientSecret'' (map_option JString (googledrive_clientSecret gd))
             (optional ''authToken'' (map_option JString (googledrive_authToken gd))
             (optional ''isPublic'' (map_option JBool (googledrive_isPublic gd)) MNil)))"
  have "member_get ?ms ''clientId'' = map_option JString (googledrive_clientId gd)"
    "member_get ?ms ''clientSecret'' = map_option JString (googledrive_clientSecret gd)"
    "member_get ?ms ''authToken'' = map_option JString (googledrive_authToken gd)"
    "member_get ?ms ''isPublic'' = map_option JBool (googledrive_isPublic gd)"
    by (simp_all add: member_get_rules del: member_get.simps(2))
  then have "optional_string ?ms ''clientId'' = Some (googledrive_clientId gd)"
    "optional_string ?ms ''clientSecret'' = Some (googledrive_clientSecret gd)"
    "optional_string ?ms ''authToken'' = Some (googledrive_authToken gd)"
    "optional_bool ?ms ''isPublic'' = Some (googledrive_isPublic gd)"
    by (simp_all only: optional_string_read optional_bool_read)
  then show ?thesis by (simp add: json_of_googledrive_def)
qed

lemma credentials_round_trip: "credentials_of_json (json_of_credentials c) = Some c"
proof -
  let ?ms = "MCons ''type'' (JString (type c))
             (optional ''filesystem'' (map_option json_of_filesystem (filesystem c))
             (optional ''webdav'' (map_option json_of_webdav (webdav c))
             (optional ''onedrive'' (map_option json_of_onedrive (onedrive c))
             (optional ''joplinserver'' (map_option json_of_joplinserver (joplinserver c))
             (optional ''googledrive'' (map_option json_of_googledrive (googledrive c))
                MNil)))))"
  have t: "member_get ?ms ''type'' = Some (JString (type c))"
    by (simp add: member_get_rules del: member_get.simps(2))
  have f: "member_get ?ms ''filesystem'' = map_option json_of_filesystem (filesystem c)"
    by (simp add: member_get_rules del: member_get.simps(2))
  have w: "member_get ?ms ''webdav'' = map_option json_of_webdav (webdav c)"
    by (simp add: member_get_rules del: member_get.simps(2))
  have od: "member_get ?ms ''onedrive'' = map_option json_of_onedrive (onedrive c)"
    by (simp add: member_get_rules del: member_get.simps(2))
  have js: "member_get ?ms ''joplinserver'' = map_option json_of_joplinserver (joplinserver c)"
    by (simp add: member_get_rules del: member_get.simps(2))
  have gd: "member_get ?ms ''googledrive'' = map_option json_of_googledrive (googledrive c)"
    by (simp add: member_get_rules del: member_get.simps(2))
  have "required_string ?ms ''type'' = Some (type c)"
    "optional_object filesystem_of_json ?ms ''filesystem'' = Some (filesystem c)"
    "optional_object webdav_of_json ?ms ''webdav'' = Some (webdav c)"
    "optional_object onedrive_of_json ?ms ''onedrive'' = Some (onedrive c)"
    "optional_object joplinserver_of_json ?ms ''joplinserver'' = Some (joplinserver c)"
    "optional_object googledrive_of_json ?ms ''googledrive'' = Some (googledrive c)"
    using t apply (rule required_string_read)
    using f filesystem_round_trip apply (rule optional_object_read)
    using w webdav_round_trip apply (rule optional_object_read)
    using od onedrive_round_trip apply (rule optional_object_read)
    using js joplinserver_round_trip apply (rule optional_object_read)
    using gd googledrive_round_trip apply (rule optional_object_read)
    done
  then show ?thesis
    by (simp add: json_of_credentials_def)
qed

lemma JSON_credentials_round_trip:
  "JSON_parse_credentials (JSON_stringify_credentials c) = Inr c"
  by (simp add: JSON_parse_credentials_def JSON_stringify_credentials_def JSON_parse_stringify
      credentials_round_trip)

lemma JSON_stringify_credentials_nonempty: "JSON_stringify_credentials c \<noteq> []"
  by (simp add: JSON_stringify_credentials_def JSON_stringify_nonempty)

section \<open>Properties of the PKCE generator and the token request\<close>

text \<open>
  C7. Whatever bytes the random source yields, the verifier of \<open>generateCodeVerifier\<close>
  and the verifier \<open>generateRandomString rnd 128\<close> of the sign-in component have a length
  between 43 and 128 and consist of characters of \<open>[A-Z a-z 0-9 - . _ ~]\<close> only.
\<close>

theorem verifier_length_and_charset:
  "43 \<le> length (generateCodeVerifier rnd) \<and> length (generateCodeVerifier rnd) \<le> 128
   \<and> set (generateCodeVerifier rnd) \<subseteq> verifier_charset
   \<and> 43 \<le> length (generateRandomString rnd 128) \<and> length (generateRandomString rnd 128) \<le> 128
   \<and> set (generateRandomString rnd 128) \<subseteq> verifier_charset"
proof -
  have "set (generateCodeVerifier rnd) \<subseteq> verifier_charset"
    using base64url_nopad_charset [of "getRandomValues rnd 32"] base64url_alphabet_verifier
    by (simp add: generateCodeVerifier_def base64URLEncode_eq)
  moreover have "length (generateRandomString rnd 128) = 128"
    "set (generateRandomString rnd 128) \<subseteq> verifier_charset"
    using generateRandomString_loop_props [of "getRandomValues rnd 128" 128 0 "[]"]
    by (simp_all add: generateRandomString_def charset_verifier)
  ultimately show ?thesis
    by (simp add: generateCodeVerifier_length)
qed

text \<open>
  The theorem at the random source that yields the byte 255 everywhere, for the service,
  and the byte 65 everywhere, for the component.
\<close>

theorem verifier_length_and_charset_witness:
  "generateCodeVerifier (\<lambda>i. 255) = ''__________________________________________8''
   \<and> length (generateCodeVerifier (\<lambda>i. 255)) = 43
   \<and> set (generateCodeVerifier (\<lambda>i. 255)) \<subseteq> verifier_charset
   \<and> generateRandomString (\<lambda>i. 65) 128 = replicate 128 (CHR ''~'')
   \<and> set (generateRandomString (\<lambda>i. 65) 128) \<subseteq> verifier_charset"
proof -
  have "base64url_nopad (getRandomValues (\<lambda>i. 255) 32)
        = ''__________________________________________8''"
    by code_simp
  then have a: "generateCodeVerifier (\<lambda>i. 255) = ''__________________________________________8''"
    by (simp only: generateCodeVerifier_def base64URLEncode_eq)
  have b: "generateRandomString (\<lambda>i. 65) 128 = replicate 128 (CHR ''~'')"
    by code_simp
  have c: "length (generateCodeVerifier (\<lambda>i. 255)) = 43"
    by (simp add: a)
  from verifier_length_and_charset [of "\<lambda>i. 255"] verifier_length_and_charset [of "\<lambda>i. 65"] a b c
  show ?thesis by (simp only: simp_thms)
qed

text \<open>
  C6. For every run of \<open>getAuthUrlWithPKCE\<close>, whatever the digest function, the random
  source and the service, the URL returned ends with the query parameters
  \<open>code_challenge\<close> and \<open>code_challenge_method=S256\<close>, and the value of
  \<open>code_challenge\<close> is the unpadded base64url text of the SHA-256 digest of the UTF-8
  bytes of the verifier returned by the same call.
\<close>

theorem authUrl_carries_challenge:
  "\<exists>prefix. authUrl (getAuthUrlWithPKCE sha256 rnd svc) =
      prefix @ ''&code_challenge=''
        @ base64url_nopad (sha256 (TextEncoder_encode (codeVerifier (getAuthUrlWithPKCE sha256 rnd svc))))
        @ ''&code_challenge_method=S256''"
proof -
  let ?v = "generateCodeVerifier rnd"
  let ?c = "base64url_nopad (sha256 (TextEncoder_encode ?v))"
  have v: "codeVerifier (getAuthUrlWithPKCE sha256 rnd svc) = ?v"
    by (simp add: getAuthUrlWithPKCE_def Let_def)
  have c: "generateCodeChallenge sha256 ?v = ?c"
    by (simp add: generateCodeChallenge_def base64URLEncode_eq)
  have "authUrl (getAuthUrlWithPKCE sha256 rnd svc) =
      (''https://login.microsoftonline.com/consumers/oauth2/v2.0/authorize?''
       @ ''client_id='' @ form_encode (service_clientId svc)
       @ ''&scope='' @ form_encode (service_scope svc)
       @ ''&response_type=code''
       @ ''&redirect_uri='' @ form_encode (service_redirectUri svc)
       @ ''&prompt=login'')
      @ ''&code_challenge='' @ ?c @ ''&code_challenge_method=S256''"
    by (simp add: getAuthUrlWithPKCE_def Let_def c URLSearchParams_toString_def
        form_encode_literals form_encode_base64url)
  with v show ?thesis by metis
qed

text \<open>
  C2. For every code and verifier the request built by \<open>exchangeCodeForToken\<close> of the
  service is a POST with content type \<open>application/x-www-form-urlencoded\<close> whose body is
  the form encoding of \<open>client_id\<close>, \<open>code\<close>, \<open>redirect_uri\<close>,
  \<open>grant_type=authorization_code\<close> and \<open>code_verifier\<close>; no field of the body is named
  \<open>client_secret\<close>. The same holds of the request the sign-in component sends, which has
  the field \<open>scope\<close> in addition.
\<close>

theorem exchange_request_form_body:
  "request_method (exchange_request svc code verifier) = ''POST''
   \<and> request_headers (exchange_request svc code verifier)
       = [(''Content-Type'', ''application/x-www-form-urlencoded'')]
   \<and> request_body (exchange_request svc code verifier)
       = ''client_id='' @ form_encode (service_clientId svc)
         @ ''&code='' @ form_encode code
         @ ''&redirect_uri='' @ form_encode (service_redirectUri svc)
         @ ''&grant_type=authorization_code''
         @ ''&code_verifier='' @ form_encode verifier
   \<and> form_names (request_body (exchange_request svc code verifier))
       = [''client_id'', ''code'', ''redirect_uri'', ''grant_type'', ''code_verifier'']
   \<and> ''client_secret'' \<notin> set (form_names (request_body (exchange_request svc code verifier)))
   \<and> (\<forall>req. OneDriveAuth_exchange_request ss code config = Inr req \<longrightarrow>
         request_method req = ''POST''
         \<and> request_headers req = [(''Content-Type'', ''application/x-www-form-urlencoded'')]
         \<and> request_body req
             = ''client_id='' @ form_encode (config_clientId config)
               @ ''&scope='' @ form_encode (join '' '' (scopes config))
               @ ''&code='' @ form_encode code
               @ ''&redirect_uri='' @ form_encode (config_redirectUri config)
               @ ''&grant_type=authorization_code''
               @ ''&code_verifier='' @ form_encode (the (getItem ss ''pkce_verifier''))
         \<and> form_names (request_body req)
             = [''client_id'', ''scope'', ''code'', ''redirect_uri'', ''grant_type'', ''code_verifier'']
         \<and> ''client_secret'' \<notin> set (form_names (request_body req)))"
proof -
  let ?req = "exchange_request svc code verifier"
  let ?params = "[(''client_id'', service_clientId svc), (''code'', code),
                  (''redirect_uri'', service_redirectUri svc),
                  (''grant_type'', ''authorization_code''), (''code_verifier'', verifier)]"
  have body: "request_body ?req = URLSearchParams_toString ?params"
    by (simp add: exchange_request_def Let_def)
  have names: "form_names (request_body ?req)
       = [''client_id'', ''code'', ''redirect_uri'', ''grant_type'', ''code_verifier'']"
    unfolding body by (subst form_names_toString) (simp_all add: form_encode_literals)
  have txt_eq: "request_body ?req
       = ''client_id='' @ form_encode (service_clientId svc)
         @ ''&code='' @ form_encode code
         @ ''&redirect_uri='' @ form_encode (service_redirectUri svc)
         @ ''&grant_type=authorization_code''
         @ ''&code_verifier='' @ form_encode verifier"
    unfolding body by (simp add: URLSearchParams_toString_def form_encode_literals)
  have rest: "request_method ?req = ''POST''"
    "request_headers ?req = [(''Content-Type'', ''application/x-www-form-urlencoded'')]"
    by (simp_all add: exchange_request_def Let_def)
  have component: "request_method req = ''POST''
         \<and> request_headers req = [(''Content-Type'', ''application/x-www-form-urlencoded'')]
         \<and> request_body req
             = ''client_id='' @ form_encode (config_clientId config)
               @ ''&scope='' @ form_encode (join '' '' (scopes config))
               @ ''&code='' @ form_encode code
               @ ''&redirect_uri='' @ form_encode (config_redirectUri config)
               @ ''&grant_type=authorization_code''
               @ ''&code_verifier='' @ form_encode (the (getItem ss ''pkce_verifier''))
         \<and> form_names (request_body req)
             = [''client_id'', ''scope'', ''code'', ''redirect_uri'', ''grant_type'', ''code_verifier'']
         \<and> ''client_secret'' \<notin> set (form_names (request_body req))"
    if sent: "OneDriveAuth_exchange_request ss code config = Inr req" for req
  proof -
    let ?ps = "[(''client_id'', config_clientId config),
                (''scope'', join '' '' (scopes config)), (''code'', code),
                (''redirect_uri'', config_redirectUri config),
                (''grant_type'', ''authorization_code''),
                (''code_verifier'', the (getItem ss ''pkce_verifier''))]"
    from sent have req: "req = \<lparr> request_url = authority config @ ''/oauth2/v2.0/token'',
                  request_method = ''POST'',
                  request_headers = [(''Content-Type'', ''application/x-www-form-urlencoded'')],
                  request_body = URLSearchParams_toString ?ps \<rparr>"
      by (simp add: OneDriveAuth_exchange_request_def Let_def split: if_splits)
    have n: "form_names (URLSearchParams_toString ?ps)
        = [''client_id'', ''scope'', ''code'', ''redirect_uri'', ''grant_type'', ''code_verifier'']"
      by (subst form_names_toString) (simp_all add: form_encode_literals)
    have t: "URLSearchParams_toString ?ps
        = ''client_id='' @ form_encode (config_clientId config)
               @ ''&scope='' @ form_encode (join '' '' (scopes config))
               @ ''&code='' @ form_encode code
               @ ''&redirect_uri='' @ form_encode (config_redirectUri config)
               @ ''&grant_type=authorization_code''
               @ ''&code_verifier='' @ form_encode (the (getItem ss ''pkce_verifier''))"
      by (simp add: URLSearchParams_toString_def form_encode_literals)
    show ?thesis
      unfolding req by (simp add: n) (simp add: t)
  qed
  from names have nosecret:
    "''client_secret'' \<notin> set (form_names (request_body ?req))"
    by simp
  from component have everywhere: "\<forall>req. OneDriveAuth_exchange_request ss code config = Inr req \<longrightarrow>
         request_method req = ''POST''
         \<and> request_headers req = [(''Content-Type'', ''application/x-www-form-urlencoded'')]
         \<and> request_body req
             = ''client_id='' @ form_encode (config_clientId config)
               @ ''&scope='' @ form_encode (join '' '' (scopes config))
               @ ''&code='' @ form_encode code
               @ ''&redirect_uri='' @ form_encode (config_redirectUri config)
               @ ''&grant_type=authorization_code''
               @ ''&code_verifier='' @ form_encode (the (getItem ss ''pkce_verifier''))
         \<and> form_names (request_body req)
             = [''client_id'', ''scope'', ''code'', ''redirect_uri'', ''grant_type'', ''code_verifier'']
         \<and> ''client_secret'' \<notin> set (form_names (request_body req))"
    by blast
  show ?thesis
    by (intro conjI) (fact rest names txt_eq nosecret everywhere)+
qed

text \<open>The theorem at a stored verifier \<open>v1\<close> and a code that contains \<open>&\<close> and \<open>=\<close>.\<close>

theorem exchange_request_form_body_witness:
  "OneDriveAuth_exchange_request [''pkce_verifier'' \<mapsto> ''v1''] ''a&b=c''
       \<lparr> config_clientId = ''cid'', scopes = [''s1'', ''s2''], config_redirectUri = ''http://h/'',
         authority = ''https://login.microsoftonline.com/common'' \<rparr>
     = Inr \<lparr> request_url = ''https://login.microsoftonline.com/common/oauth2/v2.0/token'',
             request_method = ''POST'',
             request_headers = [(''Content-Type'', ''application/x-www-form-urlencoded'')],
             request_body = ''client_id=cid&scope=s1+s2&code=a%26b%3Dc&redirect_uri=http%3A%2F%2Fh%2F&grant_type=authorization_code&code_verifier=v1'' \<rparr>
   \<and> form_names ''client_id=cid&scope=s1+s2&code=a%26b%3Dc&redirect_uri=http%3A%2F%2Fh%2F&grant_type=authorization_code&code_verifier=v1''
     = [''client_id'', ''scope'', ''code'', ''redirect_uri'', ''grant_type'', ''code_verifier'']"
proof -
  let ?ss = "[''pkce_verifier'' \<mapsto> ''v1'']"
  let ?config = "\<lparr> config_clientId = ''cid'', scopes = [''s1'', ''s2''],
         config_redirectUri = ''http://h/'',
         authority = ''https://login.microsoftonline.com/common'' \<rparr>"
  let ?req = "\<lparr> request_url = ''https://login.microsoftonline.com/common/oauth2/v2.0/token'',
             request_method = ''POST'',
             request_headers = [(''Content-Type'', ''application/x-www-form-urlencoded'')],
             request_body = ''client_id=cid&scope=s1+s2&code=a%26b%3Dc&redirect_uri=http%3A%2F%2Fh%2F&grant_type=authorization_code&code_verifier=v1'' \<rparr>"
  have enc: "form_encode ''s1 s2'' = ''s1+s2''" "form_encode ''a&b=c'' = ''a%26b%3Dc''"
    "form_encode ''http://h/'' = ''http%3A%2F%2Fh%2F''" "form_encode ''cid'' = ''cid''"
    "form_encode ''v1'' = ''v1''"
    by code_simp+
  have run: "OneDriveAuth_exchange_request ?ss ''a&b=c'' ?config = Inr ?req"
    by (simp add: OneDriveAuth_exchange_request_def getItem_def Let_def
        URLSearchParams_toString_def form_encode_literals enc)
  from exchange_request_form_body
         [where ss = ?ss and code = "''a&b=c''" and config = ?config
            and svc = "new_OneDriveOAuthService ''cid'' ''http://h/''" and verifier = "''v1''"]
  have "OneDriveAuth_exchange_request ?ss ''a&b=c'' ?config = Inr ?req
        \<longrightarrow> form_names (request_body ?req)
          = [''client_id'', ''scope'', ''code'', ''redirect_uri'', ''grant_type'', ''code_verifier'']"
    by blast
  with run have "form_names (request_body ?req)
          = [''client_id'', ''scope'', ''code'', ''redirect_uri'', ''grant_type'', ''code_verifier'']"
    by blast
  with run show ?thesis by simp
qed

section \<open>Lemmas on the application\<close>

lemma keep_profile_fields:
  "sessionStorage (keep_profile J seed creds st) = sessionStorage st"
  "search (keep_profile J seed creds st) = search st"
  "requests (keep_profile J seed creds st) = requests st"
  "href (keep_profile J seed creds st) = href st"
  "error (keep_profile J seed creds st) = error st"
  "api (keep_profile J seed creds st) = api st"
  by (simp_all add: keep_profile_def Let_def)

lemma keep_profile_current:
  "\<exists>p. currentProfile (keep_profile J seed creds st) = Some p \<and> profileCredentials p = creds"
  by (simp add: keep_profile_def Let_def createProfile_def)

lemma handleConnect_catch_fields:
  "sessionStorage (handleConnect_catch err st) = sessionStorage st"
  "search (handleConnect_catch err st) = search st"
  "requests (handleConnect_catch err st) = requests st"
  "currentProfile (handleConnect_catch err st) = currentProfile st"
  by (simp_all add: handleConnect_catch_def)

lemma handleConnect_requests: "requests (handleConnect W creds st) = requests st"
  by (simp add: handleConnect_def Let_def handleConnect_catch_fields keep_profile_fields
      split: prod.splits option.splits sum.splits)

lemma handleConnect_search: "search (handleConnect W creds st) = search st"
  by (simp add: handleConnect_def Let_def handleConnect_catch_fields keep_profile_fields
      split: prod.splits option.splits sum.splits)

text \<open>With a token in the credentials, handleConnect only ever removes from the session store.\<close>

lemma handleConnect_with_token_session:
  assumes "type creds = ''OneDrive''" "onedrive creds = Some od" "truthy (authToken od)"
    and "getItem (sessionStorage st) k = None"
  shows "getItem (sessionStorage (handleConnect W creds st)) k = None"
  using assms
  by (simp add: handleConnect_def Let_def handleConnect_catch_fields keep_profile_fields
      getItem_def removeItem_def split: prod.splits option.splits sum.splits)

lemma handleConnect_with_token_profile:
  assumes "type creds = ''OneDrive''" "onedrive creds = Some od" "truthy (authToken od)"
    and "\<exists>p. currentProfile st = Some p \<and> profileCredentials p = creds"
  shows "\<exists>p. currentProfile (handleConnect W creds st) = Some p \<and> profileCredentials p = creds"
  using assms keep_profile_current
  by (auto simp add: handleConnect_def Let_def handleConnect_catch_fields keep_profile_fields
      split: prod.splits option.splits sum.splits)

text \<open>The state in which the first part of the callback waits for the token endpoint.\<close>

lemma handleOAuthCallback_begin_exchange:
  assumes "\<not> truthy (URLSearchParams_get (search st) ''error'')"
    and "URLSearchParams_get (search st) ''code'' = Some code" "code \<noteq> []"
    and "getItem (sessionStorage st) ''processed_oauth_code'' \<noteq> Some code"
    and "getItem (sessionStorage st) ''pending_oauth_credentials'' = Some json" "json \<noteq> []"
    and "parse_credentials (codec W) json = Inr pendingCreds"
    and "type pendingCreds = ''OneDrive''" "onedrive pendingCreds = Some od"
    and "getItem (sessionStorage st) ''oauth_code_verifier'' = Some v" "v \<noteq> []"
  shows "handleOAuthCallback_begin W st =
      AwaitExchange
        (st\<lparr>sessionStorage :=
               removeItem (setItem (sessionStorage st) ''processed_oauth_code'' code)
                 ''pending_oauth_credentials'',
             search := [], loading := True,
             requests := requests st @
               [exchange_request
                  (new_OneDriveOAuthService (or_empty (clientId od))
                     (if truthy (redirectUri od) then the (redirectUri od) else origin W))
                  code v]\<rparr>)
        pendingCreds"
  using assms
  by (simp add: handleOAuthCallback_begin_def Let_def getItem_def setItem_def removeItem_def)

lemma handleOAuthCallback_catch_fields:
  "requests (handleOAuthCallback_catch err st) = requests st"
  "search (handleOAuthCallback_catch err st) = []"
  "getItem (sessionStorage (handleOAuthCallback_catch err st)) ''pending_oauth_credentials'' = None"
  "getItem (sessionStorage (handleOAuthCallback_catch err st)) ''processed_oauth_code'' = None"
  "getItem (sessionStorage (handleOAuthCallback_catch err st)) ''oauth_code_verifier'' = None"
  by (simp_all add: handleOAuthCallback_catch_def getItem_def removeItem_def)

lemma handleOAuthCallback_resume_requests:
  "requests (handleOAuthCallback_resume W pendingCreds st) = requests st"
  by (simp add: handleOAuthCallback_resume_def Let_def handleOAuthCallback_catch_fields
      handleConnect_requests keep_profile_fields split: sum.splits)

lemma exchange_request_parts:
  "request_method (exchange_request svc code verifier) = ''POST''"
  "request_url (exchange_request svc code verifier)
     = ''https://login.microsoftonline.com/consumers/oauth2/v2.0/token''"
  "request_body (exchange_request svc code verifier)
       = ''client_id='' @ form_encode (service_clientId svc)
         @ ''&code='' @ form_encode code
         @ ''&redirect_uri='' @ form_encode (service_redirectUri svc)
         @ ''&grant_type=authorization_code''
         @ ''&code_verifier='' @ form_encode verifier"
  by (simp_all add: exchange_request_def Let_def URLSearchParams_toString_def form_encode_literals)

lemma handleOAuthCallback_begin_duplicate:
  assumes "c \<noteq> []" "getItem (sessionStorage st) ''processed_oauth_code'' = Some c"
  shows "handleOAuthCallback_begin W (deliver c st) = Done (deliver c st)"
  using assms
  by (simp add: handleOAuthCallback_begin_def deliver_def URLSearchParams_get_def Let_def)

lemma handleOAuthCallback_no_pending:
  assumes "\<not> truthy (getItem (sessionStorage st) ''pending_oauth_credentials'')"
  shows "requests (handleOAuthCallback W st) = requests st"
  using assms
  by (auto simp add: handleOAuthCallback_def handleOAuthCallback_begin_def Let_def
      getItem_def setItem_def removeItem_def)

lemma handleOAuthCallback_resume_pending:
  assumes "\<forall>t. stringify_token (codec W) t \<noteq> []"
    and "type pendingCreds = ''OneDrive''" "onedrive pendingCreds = Some od"
    and "getItem (sessionStorage st) ''pending_oauth_credentials'' = None"
  shows "getItem (sessionStorage (handleOAuthCallback_resume W pendingCreds st))
           ''pending_oauth_credentials'' = None"
proof (cases "exchangeCodeForToken (codec W) (token_response W)")
  case (Inl thrown)
  then show ?thesis
    by (simp add: handleOAuthCallback_resume_def handleOAuthCallback_catch_fields)
next
  case (Inr tokenData)
  let ?withToken = "pendingCreds\<lparr>onedrive := Some (od\<lparr>authToken :=
                                Some (stringify_token (codec W) tokenData)\<rparr>)\<rparr>"
  let ?st2 = "keep_profile (codec W) (callback_seed W) ?withToken
                (st\<lparr>sessionStorage :=
                      removeItem (removeItem (sessionStorage st) ''oauth_code_verifier'')
                        ''processed_oauth_code''\<rparr>)"
  have tok: "type ?withToken = ''OneDrive''"
    "onedrive ?withToken = Some (od\<lparr>authToken := Some (stringify_token (codec W) tokenData)\<rparr>)"
    "truthy (authToken (od\<lparr>authToken := Some (stringify_token (codec W) tokenData)\<rparr>))"
    using assms(1,2) by simp_all
  have "getItem (sessionStorage ?st2) ''pending_oauth_credentials'' = None"
    using assms(4) by (simp add: keep_profile_fields getItem_def removeItem_def)
  then have "getItem (sessionStorage (handleConnect W ?withToken ?st2))
           ''pending_oauth_credentials'' = None"
    by (rule handleConnect_with_token_session [OF tok])
  with Inr assms(3) show ?thesis
    by (simp add: handleOAuthCallback_resume_def Let_def)
qed

lemma handleOAuthCallback_without_pending:
  assumes "\<not> truthy (URLSearchParams_get (search st) ''error'')"
    and "URLSearchParams_get (search st) ''code'' = Some c" "c \<noteq> []"
    and "getItem (sessionStorage st) ''processed_oauth_code'' \<noteq> Some c"
    and "\<not> truthy (getItem (sessionStorage st) ''pending_oauth_credentials'')"
  shows "handleOAuthCallback W st
           = st\<lparr>sessionStorage := setItem (sessionStorage st) ''processed_oauth_code'' c,
                search := []\<rparr>"
  using assms
  by (simp add: handleOAuthCallback_def handleOAuthCallback_begin_def Let_def
      getItem_def setItem_def)

lemma handleOAuthCallback_resume_marker:
  assumes "\<forall>t. stringify_token (codec W) t \<noteq> []"
    and "type pendingCreds = ''OneDrive''" "onedrive pendingCreds = Some od"
  shows "getItem (sessionStorage (handleOAuthCallback_resume W pendingCreds st))
           ''processed_oauth_code'' = None"
proof (cases "exchangeCodeForToken (codec W) (token_response W)")
  case (Inl thrown)
  then show ?thesis
    by (simp add: handleOAuthCallback_resume_def handleOAuthCallback_catch_fields)
next
  case (Inr tokenData)
  let ?withToken = "pendingCreds\<lparr>onedrive := Some (od\<lparr>authToken :=
                                Some (stringify_token (codec W) tokenData)\<rparr>)\<rparr>"
  let ?st2 = "keep_profile (codec W) (callback_seed W) ?withToken
                (st\<lparr>sessionStorage :=
                      removeItem (removeItem (sessionStorage st) ''oauth_code_verifier'')
                        ''processed_oauth_code''\<rparr>)"
  have tok: "type ?withToken = ''OneDrive''"
    "onedrive ?withToken = Some (od\<lparr>authToken := Some (stringify_token (codec W) tokenData)\<rparr>)"
    "truthy (authToken (od\<lparr>authToken := Some (stringify_token (codec W) tokenData)\<rparr>))"
    using assms(1,2) by simp_all
  have "getItem (sessionStorage ?st2) ''processed_oauth_code'' = None"
    by (simp add: keep_profile_fields getItem_def removeItem_def)
  then have "getItem (sessionStorage (handleConnect W ?withToken ?st2))
           ''processed_oauth_code'' = None"
    by (rule handleConnect_with_token_session [OF tok])
  with Inr assms(3) show ?thesis
    by (simp add: handleOAuthCallback_resume_def Let_def)
qed

lemmas example_run =
  handleOAuthCallback_def handleOAuthCallback_begin_def handleOAuthCallback_resume_def
  handleOAuthCallback_catch_def handleConnect_def handleConnect_catch_def keep_profile_def
  URLSearchParams_get_def getItem_def setItem_def removeItem_def Let_def
  example_world_def example_page_def example_codec_def example_library_def
  example_credentials_def example_onedrive_def example_token_def
  exchangeCodeForToken_def connect_def connect_body_def storage_arguments_def getItems_def
  page_load_def deliver_def js_or_def

lemma handleOAuthCallback_begin_no_verifier:
  assumes "\<not> truthy (getItem (sessionStorage st) ''oauth_code_verifier'')"
  shows "\<exists>st1. handleOAuthCallback_begin W st = Done st1 \<and> requests st1 = requests st"
  using assms
  by (auto simp add: handleOAuthCallback_begin_def Let_def handleOAuthCallback_catch_fields
      handleConnect_requests getItem_def setItem_def removeItem_def split: sum.splits)

lemma generateCodeVerifier_nonempty: "generateCodeVerifier rnd \<noteq> []"
  using generateCodeVerifier_length [of rnd] by auto

lemmas example_defs =
  URLSearchParams_get_def getItem_def setItem_def removeItem_def
  example_world_def example_page_def example_codec_def
  example_credentials_def example_onedrive_def example_token_def

lemma example_page_facts:
  "\<not> truthy (URLSearchParams_get (search example_page) ''error'')"
  "URLSearchParams_get (search example_page) ''code'' = Some ''abc123''"
  "''abc123'' \<noteq> []"
  "getItem (sessionStorage example_page) ''processed_oauth_code'' \<noteq> Some ''abc123''"
  "getItem (sessionStorage example_page) ''pending_oauth_credentials'' = Some ''{creds}''"
  "''{creds}'' \<noteq> []"
  "parse_credentials (codec example_world) ''{creds}'' = Inr example_credentials"
  "type example_credentials = ''OneDrive''"
  "onedrive example_credentials = Some example_onedrive"
  "getItem (sessionStorage example_page) ''oauth_code_verifier'' = Some ''v1''"
  "''v1'' \<noteq> []"
  by (simp_all add: example_defs)

section \<open>Properties of the redirect handler\<close>

text \<open>
  C5. Let the page be loaded with a non-empty \<open>code\<close> and no \<open>error\<close> in its query,
  the code not being the one marked as processed, with pending OneDrive credentials and a
  non-empty verifier \<open>v\<close> in \<^verbatim>\<open>sessionStorage\<close>. Then the handler passes exactly one request
  to \<^verbatim>\<open>fetch\<close>: a POST to the token endpoint whose body carries this code, this verifier
  and \<open>grant_type=authorization_code\<close>. If the endpoint answers with a token (and the
  JSON text of the token is not empty), then at the end the pending credentials, the
  verifier and the marker are gone from \<^verbatim>\<open>sessionStorage\<close>, the URL is clean, and the
  current profile holds the pending credentials with the token attached.
\<close>

theorem code_exchange_completes:
  assumes "\<not> truthy (URLSearchParams_get (search st) ''error'')"
    and "URLSearchParams_get (search st) ''code'' = Some code" "code \<noteq> []"
    and "getItem (sessionStorage st) ''processed_oauth_code'' \<noteq> Some code"
    and "getItem (sessionStorage st) ''pending_oauth_credentials'' = Some json" "json \<noteq> []"
    and "parse_credentials (codec W) json = Inr pendingCreds"
    and "type pendingCreds = ''OneDrive''" "onedrive pendingCreds = Some od"
    and "getItem (sessionStorage st) ''oauth_code_verifier'' = Some v" "v \<noteq> []"
  shows "requests (handleOAuthCallback W st)
           = requests st @
             [exchange_request
                (new_OneDriveOAuthService (or_empty (clientId od))
                   (if truthy (redirectUri od) then the (redirectUri od) else origin W))
                code v]
         \<and> request_method (exchange_request
                (new_OneDriveOAuthService (or_empty (clientId od))
                   (if truthy (redirectUri od) then the (redirectUri od) else origin W))
                code v) = ''POST''
         \<and> request_url (exchange_request
                (new_OneDriveOAuthService (or_empty (clientId od))
                   (if truthy (redirectUri od) then the (redirectUri od) else origin W))
                code v) = ''https://login.microsoftonline.com/consumers/oauth2/v2.0/token''
         \<and> request_body (exchange_request
                (new_OneDriveOAuthService (or_empty (clientId od))
                   (if truthy (redirectUri od) then the (redirectUri od) else origin W))
                code v)
             = ''client_id='' @ form_encode (or_empty (clientId od))
               @ ''&code='' @ form_encode code
               @ ''&redirect_uri=''
               @ form_encode (if truthy (redirectUri od) then the (redirectUri od) else origin W)
               @ ''&grant_type=authorization_code''
               @ ''&code_verifier='' @ form_encode v
         \<and> (token_response W = FetchResponse response \<and> response_ok response
              \<and> parse_token (codec W) (response_text response) = Inr tokenData
              \<and> stringify_token (codec W) tokenData \<noteq> []
             \<longrightarrow> getItem (sessionStorage (handleOAuthCallback W st)) ''pending_oauth_credentials'' = None
                 \<and> getItem (sessionStorage (handleOAuthCallback W st)) ''oauth_code_verifier'' = None
                 \<and> getItem (sessionStorage (handleOAuthCallback W st)) ''processed_oauth_code'' = None
                 \<and> search (handleOAuthCallback W st) = []
                 \<and> (\<exists>p. currentProfile (handleOAuthCallback W st) = Some p
                        \<and> profileCredentials p
                            = pendingCreds\<lparr>onedrive := Some (od\<lparr>authToken :=
                                Some (stringify_token (codec W) tokenData)\<rparr>)\<rparr>))"
proof (intro conjI impI)
  let ?svc = "new_OneDriveOAuthService (or_empty (clientId od))
                     (if truthy (redirectUri od) then the (redirectUri od) else origin W)"
  let ?st1 = "st\<lparr>sessionStorage :=
               removeItem (setItem (sessionStorage st) ''processed_oauth_code'' code)
                 ''pending_oauth_credentials'',
             search := [], loading := True,
             requests := requests st @ [exchange_request ?svc code v]\<rparr>"
  have first_part: "handleOAuthCallback_begin W st = AwaitExchange ?st1 pendingCreds"
    using assms by (rule handleOAuthCallback_begin_exchange)
  then have whole: "handleOAuthCallback W st = handleOAuthCallback_resume W pendingCreds ?st1"
    by (simp add: handleOAuthCallback_def)
  show "requests (handleOAuthCallback W st) = requests st @ [exchange_request ?svc code v]"
    unfolding whole by (simp add: handleOAuthCallback_resume_requests)
  show "request_method (exchange_request ?svc code v) = ''POST''"
    by (rule exchange_request_parts)
  show "request_url (exchange_request ?svc code v)
          = ''https://login.microsoftonline.com/consumers/oauth2/v2.0/token''"
    by (rule exchange_request_parts)
  show "request_body (exchange_request ?svc code v)
             = ''client_id='' @ form_encode (or_empty (clientId od))
               @ ''&code='' @ form_encode code
               @ ''&redirect_uri=''
               @ form_encode (if truthy (redirectUri od) then the (redirectUri od) else origin W)
               @ ''&grant_type=authorization_code''
               @ ''&code_verifier='' @ form_encode v"
    using exchange_request_parts(3) [of ?svc code v]
    by (simp add: new_OneDriveOAuthService_def)
  assume ok: "token_response W = FetchResponse response \<and> response_ok response
              \<and> parse_token (codec W) (response_text response) = Inr tokenData
              \<and> stringify_token (codec W) tokenData \<noteq> []"
  let ?withToken = "pendingCreds\<lparr>onedrive := Some (od\<lparr>authToken :=
                                Some (stringify_token (codec W) tokenData)\<rparr>)\<rparr>"
  let ?st2 = "keep_profile (codec W) (callback_seed W) ?withToken
                (?st1\<lparr>sessionStorage :=
                          removeItem (removeItem (sessionStorage ?st1) ''oauth_code_verifier'')
                            ''processed_oauth_code''\<rparr>)"
  from ok have "exchangeCodeForToken (codec W) (token_response W) = Inr tokenData"
    by (simp add: exchangeCodeForToken_def)
  then have final: "handleOAuthCallback W st = handleConnect W ?withToken ?st2"
    unfolding whole using assms(9) by (simp add: handleOAuthCallback_resume_def Let_def)
  have tok: "type ?withToken = ''OneDrive''"
    "onedrive ?withToken = Some (od\<lparr>authToken := Some (stringify_token (codec W) tokenData)\<rparr>)"
    "truthy (authToken (od\<lparr>authToken := Some (stringify_token (codec W) tokenData)\<rparr>))"
    using assms(8) ok by simp_all
  have empty: "getItem (sessionStorage ?st2) ''pending_oauth_credentials'' = None"
    "getItem (sessionStorage ?st2) ''oauth_code_verifier'' = None"
    "getItem (sessionStorage ?st2) ''processed_oauth_code'' = None"
    by (simp_all add: keep_profile_fields getItem_def removeItem_def setItem_def)
  show "getItem (sessionStorage (handleOAuthCallback W st)) ''pending_oauth_credentials'' = None"
    unfolding final by (rule handleConnect_with_token_session [OF tok empty(1)])
  show "getItem (sessionStorage (handleOAuthCallback W st)) ''oauth_code_verifier'' = None"
    unfolding final by (rule handleConnect_with_token_session [OF tok empty(2)])
  show "getItem (sessionStorage (handleOAuthCallback W st)) ''processed_oauth_code'' = None"
    unfolding final by (rule handleConnect_with_token_session [OF tok empty(3)])
  show "search (handleOAuthCallback W st) = []"
    unfolding final by (simp add: handleConnect_search keep_profile_fields)
  show "\<exists>p. currentProfile (handleOAuthCallback W st) = Some p \<and> profileCredentials p = ?withToken"
    unfolding final
    by (rule handleConnect_with_token_profile [OF tok]) (rule keep_profile_current)
qed

text \<open>The theorem at the example page and the example world.\<close>

theorem code_exchange_completes_witness:
  "URLSearchParams_get (search example_page) ''code'' = Some ''abc123''
   \<and> getItem (sessionStorage example_page) ''oauth_code_verifier'' = Some ''v1''
   \<and> requests (handleOAuthCallback example_world example_page)
       = [exchange_request (new_OneDriveOAuthService ''client-1'' ''http://localhost:5173'')
            ''abc123'' ''v1'']
   \<and> getItem (sessionStorage (handleOAuthCallback example_world example_page))
         ''pending_oauth_credentials'' = None
   \<and> getItem (sessionStorage (handleOAuthCallback example_world example_page))
         ''oauth_code_verifier'' = None
   \<and> getItem (sessionStorage (handleOAuthCallback example_world example_page))
         ''processed_oauth_code'' = None
   \<and> (\<exists>p. currentProfile (handleOAuthCallback example_world example_page) = Some p
          \<and> profileCredentials p
              = example_credentials\<lparr>onedrive := Some (example_onedrive\<lparr>authToken := Some ''{token}''\<rparr>)\<rparr>)"
proof -
  let ?response = "\<lparr> response_ok = True, response_status = 200, response_statusText = ''OK'',
                    response_text = ''{token}'' \<rparr>"
  have ok: "token_response example_world = FetchResponse ?response \<and> response_ok ?response
      \<and> parse_token (codec example_world) (response_text ?response) = Inr example_token
      \<and> stringify_token (codec example_world) example_token \<noteq> []"
    by (simp add: example_defs)
  have vals: "or_empty (clientId example_onedrive) = ''client-1''"
    "(if truthy (redirectUri example_onedrive) then the (redirectUri example_onedrive)
      else origin example_world) = ''http://localhost:5173''"
    "requests example_page = []"
    "stringify_token (codec example_world) example_token = ''{token}''"
    by (simp_all add: example_defs)
  from code_exchange_completes [OF example_page_facts, where response = ?response
         and tokenData = example_token] ok
  show ?thesis
    unfolding vals using example_page_facts(2,10) by simp
qed

text \<open>
  C1, as stated, fails where it calls every later delivery of the same code a no-op. In
  the example the first delivery runs to its end, with a token from the endpoint, and
  clears the marker \<^verbatim>\<open>processed_oauth_code\<close>; the second delivery of \<^verbatim>\<open>abc123\<close> then
  finds no marker, writes it again and cleans the URL. It still issues no request.
\<close>

theorem later_delivery_changes_store:
  "getItem (sessionStorage (handleOAuthCallback example_world example_page))
     ''processed_oauth_code'' = None
   \<and> search (handleOAuthCallback example_world example_page) = []
   \<and> length (requests (handleOAuthCallback example_world example_page)) = 1
   \<and> getItem (sessionStorage (handleOAuthCallback example_world
                   (deliver ''abc123'' (handleOAuthCallback example_world example_page))))
       ''processed_oauth_code'' = Some ''abc123''
   \<and> handleOAuthCallback example_world
         (deliver ''abc123'' (handleOAuthCallback example_world example_page))
       \<noteq> deliver ''abc123'' (handleOAuthCallback example_world example_page)"
proof -
  let ?s1 = "handleOAuthCallback example_world example_page"
  let ?s2 = "handleOAuthCallback example_world (deliver ''abc123'' ?s1)"
  have a: "getItem (sessionStorage ?s1) ''processed_oauth_code'' = None"
    "search ?s1 = []" "length (requests ?s1) = 1"
    by (simp_all add: example_run)
  have b: "getItem (sessionStorage ?s2) ''processed_oauth_code'' = Some ''abc123''"
    by (simp add: example_run)
  have "getItem (sessionStorage (deliver ''abc123'' ?s1)) ''processed_oauth_code'' = None"
    using a(1) by (simp add: deliver_def)
  with b have "?s2 \<noteq> deliver ''abc123'' ?s1"
    by (metis option.distinct(1))
  with a b show ?thesis by blast
qed

text \<open>
  C1, amended. Let the page be loaded with a non-empty \<open>code\<close> and no \<open>error\<close> in
  its query, with pending OneDrive credentials and a verifier in \<^verbatim>\<open>sessionStorage\<close>, the
  marker being not yet this code, and let JSON texts be non-empty. The first delivery
  sets the marker to the code and passes one exchange request to \<^verbatim>\<open>fetch\<close>. A second
  delivery of the same code that arrives while the first waits for the token endpoint
  returns at once and changes nothing, and the first then finishes without a further
  request. A second delivery that arrives after the first has finished, whether the
  exchange succeeded or failed, issues no request either; it finds the marker cleared,
  writes it again and cleans the URL. In both orders the token endpoint is called exactly
  once.
\<close>

theorem duplicate_code_one_exchange:
  assumes "\<not> truthy (URLSearchParams_get (search st) ''error'')"
    and "URLSearchParams_get (search st) ''code'' = Some code" "code \<noteq> []"
    and "getItem (sessionStorage st) ''processed_oauth_code'' \<noteq> Some code"
    and "getItem (sessionStorage st) ''pending_oauth_credentials'' = Some json" "json \<noteq> []"
    and "parse_credentials (codec W) json = Inr pendingCreds"
    and "type pendingCreds = ''OneDrive''" "onedrive pendingCreds = Some od"
    and "getItem (sessionStorage st) ''oauth_code_verifier'' = Some v" "v \<noteq> []"
    and "\<forall>t. stringify_token (codec W) t \<noteq> []"
  shows "\<exists>st1 req.
           req = exchange_request
                   (new_OneDriveOAuthService (or_empty (clientId od))
                      (if truthy (redirectUri od) then the (redirectUri od) else origin W)) code v
         \<and> handleOAuthCallback_begin W st = AwaitExchange st1 pendingCreds
         \<and> getItem (sessionStorage st1) ''processed_oauth_code'' = Some code
         \<and> requests st1 = requests st @ [req]
         \<and> handleOAuthCallback_begin W2 (deliver code st1) = Done (deliver code st1)
         \<and> requests (handleOAuthCallback_resume W pendingCreds (deliver code st1))
             = requests st @ [req]
         \<and> requests (handleOAuthCallback W2
                        (deliver code (handleOAuthCallback_resume W pendingCreds st1)))
             = requests st @ [req]
         \<and> getItem (sessionStorage (handleOAuthCallback_resume W pendingCreds st1))
               ''processed_oauth_code'' = None
         \<and> getItem (sessionStorage (handleOAuthCallback W2
                        (deliver code (handleOAuthCallback_resume W pendingCreds st1))))
               ''processed_oauth_code'' = Some code
         \<and> search (handleOAuthCallback W2
                        (deliver code (handleOAuthCallback_resume W pendingCreds st1))) = []"
proof -
  let ?svc = "new_OneDriveOAuthService (or_empty (clientId od))
                     (if truthy (redirectUri od) then the (redirectUri od) else origin W)"
  let ?st1 = "st\<lparr>sessionStorage :=
               removeItem (setItem (sessionStorage st) ''processed_oauth_code'' code)
                 ''pending_oauth_credentials'',
             search := [], loading := True,
             requests := requests st @ [exchange_request ?svc code v]\<rparr>"
  have first_part: "handleOAuthCallback_begin W st = AwaitExchange ?st1 pendingCreds"
    using assms(1-11) by (rule handleOAuthCallback_begin_exchange)
  have marker: "getItem (sessionStorage ?st1) ''processed_oauth_code'' = Some code"
    by (simp add: getItem_def setItem_def removeItem_def)
  have reqs: "requests ?st1 = requests st @ [exchange_request ?svc code v]"
    by simp
  have in_flight: "handleOAuthCallback_begin W2 (deliver code ?st1) = Done (deliver code ?st1)"
    using assms(3) marker by (rule handleOAuthCallback_begin_duplicate)
  have resumed: "requests (handleOAuthCallback_resume W pendingCreds (deliver code ?st1))
             = requests st @ [exchange_request ?svc code v]"
    by (simp add: handleOAuthCallback_resume_requests deliver_def)
  have "getItem (sessionStorage ?st1) ''pending_oauth_credentials'' = None"
    by (simp add: getItem_def removeItem_def)
  with assms(12,8,9)
  have "getItem (sessionStorage (handleOAuthCallback_resume W pendingCreds ?st1))
           ''pending_oauth_credentials'' = None"
    by (rule handleOAuthCallback_resume_pending)
  then have "\<not> truthy (getItem (sessionStorage
                 (deliver code (handleOAuthCallback_resume W pendingCreds ?st1)))
               ''pending_oauth_credentials'')"
    by (simp add: deliver_def)
  then have "requests (handleOAuthCallback W2
                        (deliver code (handleOAuthCallback_resume W pendingCreds ?st1)))
             = requests (deliver code (handleOAuthCallback_resume W pendingCreds ?st1))"
    by (rule handleOAuthCallback_no_pending)
  then have later: "requests (handleOAuthCallback W2
                        (deliver code (handleOAuthCallback_resume W pendingCreds ?st1)))
             = requests st @ [exchange_request ?svc code v]"
    by (simp add: deliver_def handleOAuthCallback_resume_requests)
  let ?done = "handleOAuthCallback_resume W pendingCreds ?st1"
  have cleared: "getItem (sessionStorage ?done) ''processed_oauth_code'' = None"
    using assms(12,8,9) by (rule handleOAuthCallback_resume_marker)
  have "handleOAuthCallback W2 (deliver code ?done)
          = (deliver code ?done)\<lparr>sessionStorage :=
               setItem (sessionStorage (deliver code ?done)) ''processed_oauth_code'' code,
               search := []\<rparr>"
  proof (rule handleOAuthCallback_without_pending)
    show "\<not> truthy (URLSearchParams_get (search (deliver code ?done)) ''error'')"
      by (simp add: deliver_def URLSearchParams_get_def)
    show "URLSearchParams_get (search (deliver code ?done)) ''code'' = Some code"
      by (simp add: deliver_def URLSearchParams_get_def)
    show "code \<noteq> []" by (rule assms(3))
    show "getItem (sessionStorage (deliver code ?done)) ''processed_oauth_code'' \<noteq> Some code"
      using cleared by (simp add: deliver_def)
    show "\<not> truthy (getItem (sessionStorage (deliver code ?done))
                      ''pending_oauth_credentials'')"
      by fact
  qed
  then have rewritten:
    "getItem (sessionStorage (handleOAuthCallback W2 (deliver code ?done)))
       ''processed_oauth_code'' = Some code"
    "search (handleOAuthCallback W2 (deliver code ?done)) = []"
    by (simp_all add: getItem_def setItem_def)
  from first_part marker reqs in_flight resumed later cleared rewritten show ?thesis
    by blast
qed

text \<open>The theorem at the example page, where the code \<^verbatim>\<open>abc123\<close> has arrived.\<close>

theorem duplicate_code_one_exchange_witness:
  "handleOAuthCallback_begin example_world example_page
     = AwaitExchange
         (example_page\<lparr>sessionStorage := [''oauth_code_verifier'' \<mapsto> ''v1'',
                                          ''processed_oauth_code'' \<mapsto> ''abc123''],
                       search := [], loading := True,
                       requests := [exchange_request
                          (new_OneDriveOAuthService ''client-1'' ''http://localhost:5173'')
                          ''abc123'' ''v1'']\<rparr>)
         example_credentials
   \<and> (\<exists>st1. handleOAuthCallback_begin example_world example_page
               = AwaitExchange st1 example_credentials
          \<and> handleOAuthCallback_begin example_world (deliver ''abc123'' st1)
               = Done (deliver ''abc123'' st1)
          \<and> length (requests (handleOAuthCallback_resume example_world example_credentials
                                 (deliver ''abc123'' st1))) = 1
          \<and> length (requests (handleOAuthCallback example_world
                 (deliver ''abc123''
                    (handleOAuthCallback_resume example_world example_credentials st1)))) = 1)"
proof -
  have first_part: "handleOAuthCallback_begin example_world example_page
     = AwaitExchange
         (example_page\<lparr>sessionStorage := [''oauth_code_verifier'' \<mapsto> ''v1'',
                                          ''processed_oauth_code'' \<mapsto> ''abc123''],
                       search := [], loading := True,
                       requests := [exchange_request
                          (new_OneDriveOAuthService ''client-1'' ''http://localhost:5173'')
                          ''abc123'' ''v1'']\<rparr>)
         example_credentials"
    by (simp add: handleOAuthCallback_begin_def Let_def example_defs)
  have text_nonempty: "\<forall>t. stringify_token (codec example_world) t \<noteq> []"
    by (simp add: example_defs)
  from duplicate_code_one_exchange [OF example_page_facts text_nonempty, of example_world]
  obtain st1 req where
    "handleOAuthCallback_begin example_world example_page = AwaitExchange st1 example_credentials"
    "handleOAuthCallback_begin example_world (deliver ''abc123'' st1) = Done (deliver ''abc123'' st1)"
    "requests (handleOAuthCallback_resume example_world example_credentials (deliver ''abc123'' st1))
       = requests example_page @ [req]"
    "requests (handleOAuthCallback example_world
                 (deliver ''abc123''
                    (handleOAuthCallback_resume example_world example_credentials st1)))
       = requests example_page @ [req]"
    by blast
  then have "\<exists>st1. handleOAuthCallback_begin example_world example_page
               = AwaitExchange st1 example_credentials
          \<and> handleOAuthCallback_begin example_world (deliver ''abc123'' st1)
               = Done (deliver ''abc123'' st1)
          \<and> length (requests (handleOAuthCallback_resume example_world example_credentials
                                 (deliver ''abc123'' st1))) = 1
          \<and> length (requests (handleOAuthCallback example_world
                 (deliver ''abc123''
                    (handleOAuthCallback_resume example_world example_credentials st1)))) = 1"
    by (auto simp: example_page_def)
  with first_part show ?thesis by blast
qed

text \<open>
  C3, on the code. The page is loaded with
  \<^verbatim>\<open>?error=access_denied&error_description=User+cancelled\<close> while the credentials and the
  verifier of the attempt are in \<^verbatim>\<open>sessionStorage\<close>. The handler surfaces the
  description, issues no request, cleans the URL and removes the pending credentials, but
  the verifier stays stored: the provider-error branch removes one key, where the
  \<^verbatim>\<open>catch\<close> block of the same function removes them all.
\<close>

theorem provider_error_keeps_verifier:
  "error (handleOAuthCallback example_world
            (page_load [(''error'', ''access_denied''), (''error_description'', ''User cancelled'')]
               example_page)) = Some ''User cancelled''
   \<and> requests (handleOAuthCallback example_world
            (page_load [(''error'', ''access_denied''), (''error_description'', ''User cancelled'')]
               example_page)) = []
   \<and> search (handleOAuthCallback example_world
            (page_load [(''error'', ''access_denied''), (''error_description'', ''User cancelled'')]
               example_page)) = []
   \<and> getItem (sessionStorage (handleOAuthCallback example_world
            (page_load [(''error'', ''access_denied''), (''error_description'', ''User cancelled'')]
               example_page))) ''pending_oauth_credentials'' = None
   \<and> getItem (sessionStorage (handleOAuthCallback example_world
            (page_load [(''error'', ''access_denied''), (''error_description'', ''User cancelled'')]
               example_page))) ''oauth_code_verifier'' = Some ''v1''"
  by (simp add: example_run)

text \<open>
  C4, as stated, fails for a page load that finds a code in the URL and an empty
  \<^verbatim>\<open>sessionStorage\<close>: no verifier is stored, and no error is surfaced. The handler has
  written the code as the processed marker and takes the branch for a code without
  pending credentials, which cleans the URL.
\<close>

theorem no_pending_no_error_surfaced:
  "URLSearchParams_get (search (page_load [(''code'', ''xyz'')]
        (example_page\<lparr>sessionStorage := Map.empty\<rparr>))) ''code'' = Some ''xyz''
   \<and> getItem (sessionStorage (page_load [(''code'', ''xyz'')]
        (example_page\<lparr>sessionStorage := Map.empty\<rparr>))) ''oauth_code_verifier'' = None
   \<and> error (handleOAuthCallback example_world (page_load [(''code'', ''xyz'')]
        (example_page\<lparr>sessionStorage := Map.empty\<rparr>))) = None
   \<and> requests (handleOAuthCallback example_world (page_load [(''code'', ''xyz'')]
        (example_page\<lparr>sessionStorage := Map.empty\<rparr>))) = []
   \<and> search (handleOAuthCallback example_world (page_load [(''code'', ''xyz'')]
        (example_page\<lparr>sessionStorage := Map.empty\<rparr>))) = []
   \<and> getItem (sessionStorage (handleOAuthCallback example_world (page_load [(''code'', ''xyz'')]
        (example_page\<lparr>sessionStorage := Map.empty\<rparr>)))) ''processed_oauth_code''
       = Some ''xyz''"
  by (simp add: example_run)

text \<open>
  C4, amended. On every page load that finds no verifier (none, or an empty one) in
  \<^verbatim>\<open>sessionStorage\<close> the handler issues no request to the token endpoint. If moreover the
  URL carries a non-empty code and no error, the code is not the one marked as processed
  and pending OneDrive credentials are stored, the handler surfaces
  \<open>PKCE code_verifier not found. Please try logging in again.\<close>, stops loading, cleans
  the URL and clears the pending credentials, the verifier and the marker. If instead,
  with such a URL and such a code, no pending credentials are stored, the handler
  surfaces no error: it writes the code as the processed marker, cleans the URL and
  changes nothing else.
\<close>

theorem verifier_missing_no_exchange:
  assumes "\<not> truthy (getItem (sessionStorage st) ''oauth_code_verifier'')"
  shows "requests (handleOAuthCallback W st) = requests st
     \<and> (\<not> truthy (URLSearchParams_get (search st) ''error'')
         \<and> URLSearchParams_get (search st) ''code'' = Some code \<and> code \<noteq> []
         \<and> getItem (sessionStorage st) ''processed_oauth_code'' \<noteq> Some code
         \<and> getItem (sessionStorage st) ''pending_oauth_credentials'' = Some json \<and> json \<noteq> []
         \<and> parse_credentials (codec W) json = Inr pendingCreds
         \<and> type pendingCreds = ''OneDrive'' \<and> onedrive pendingCreds \<noteq> None
        \<longrightarrow> error (handleOAuthCallback W st)
              = Some ''PKCE code_verifier not found. Please try logging in again.''
            \<and> \<not> loading (handleOAuthCallback W st)
            \<and> search (handleOAuthCallback W st) = []
            \<and> getItem (sessionStorage (handleOAuthCallback W st)) ''pending_oauth_credentials'' = None
            \<and> getItem (sessionStorage (handleOAuthCallback W st)) ''oauth_code_verifier'' = None
            \<and> getItem (sessionStorage (handleOAuthCallback W st)) ''processed_oauth_code'' = None)
     \<and> (\<not> truthy (URLSearchParams_get (search st) ''error'')
         \<and> URLSearchParams_get (search st) ''code'' = Some code \<and> code \<noteq> []
         \<and> getItem (sessionStorage st) ''processed_oauth_code'' \<noteq> Some code
         \<and> \<not> truthy (getItem (sessionStorage st) ''pending_oauth_credentials'')
        \<longrightarrow> handleOAuthCallback W st
              = st\<lparr>sessionStorage := setItem (sessionStorage st) ''processed_oauth_code'' code,
                   search := []\<rparr>
            \<and> error (handleOAuthCallback W st) = error st)"
proof (intro conjI impI)
  assume "\<not> truthy (URLSearchParams_get (search st) ''error'')
         \<and> URLSearchParams_get (search st) ''code'' = Some code \<and> code \<noteq> []
         \<and> getItem (sessionStorage st) ''processed_oauth_code'' \<noteq> Some code
         \<and> \<not> truthy (getItem (sessionStorage st) ''pending_oauth_credentials'')"
  then have bare: "handleOAuthCallback W st
              = st\<lparr>sessionStorage := setItem (sessionStorage st) ''processed_oauth_code'' code,
                   search := []\<rparr>"
    by (intro handleOAuthCallback_without_pending) simp_all
  show "handleOAuthCallback W st
              = st\<lparr>sessionStorage := setItem (sessionStorage st) ''processed_oauth_code'' code,
                   search := []\<rparr>"
    by (rule bare)
  show "error (handleOAuthCallback W st) = error st"
    unfolding bare by simp
next
  from handleOAuthCallback_begin_no_verifier [OF assms, of W]
  show "requests (handleOAuthCallback W st) = requests st"
    by (auto simp: handleOAuthCallback_def)
next
  assume h: "\<not> truthy (URLSearchParams_get (search st) ''error'')
         \<and> URLSearchParams_get (search st) ''code'' = Some code \<and> code \<noteq> []
         \<and> getItem (sessionStorage st) ''processed_oauth_code'' \<noteq> Some code
         \<and> getItem (sessionStorage st) ''pending_oauth_credentials'' = Some json \<and> json \<noteq> []
         \<and> parse_credentials (codec W) json = Inr pendingCreds
         \<and> type pendingCreds = ''OneDrive'' \<and> onedrive pendingCreds \<noteq> None"
  let ?st2 = "st\<lparr>sessionStorage :=
               removeItem (setItem (sessionStorage st) ''processed_oauth_code'' code)
                 ''pending_oauth_credentials'',
             search := [], loading := True\<rparr>"
  have "handleOAuthCallback_begin W st
      = Done (handleOAuthCallback_catch
                (JsError ''PKCE code_verifier not found. Please try logging in again.'') ?st2)"
    using h assms
    by (simp add: handleOAuthCallback_begin_def Let_def getItem_def setItem_def removeItem_def)
  then have whole: "handleOAuthCallback W st
      = handleOAuthCallback_catch
          (JsError ''PKCE code_verifier not found. Please try logging in again.'') ?st2"
    by (simp add: handleOAuthCallback_def)
  show "error (handleOAuthCallback W st)
              = Some ''PKCE code_verifier not found. Please try logging in again.''"
    "\<not> loading (handleOAuthCallback W st)"
    "search (handleOAuthCallback W st) = []"
    "getItem (sessionStorage (handleOAuthCallback W st)) ''pending_oauth_credentials'' = None"
    "getItem (sessionStorage (handleOAuthCallback W st)) ''oauth_code_verifier'' = None"
    "getItem (sessionStorage (handleOAuthCallback W st)) ''processed_oauth_code'' = None"
    unfolding whole
    by (simp_all add: handleOAuthCallback_catch_fields) (simp_all add: handleOAuthCallback_catch_def)
qed

text \<open>
  The theorem at the example page with the verifier taken out of the store, and at the
  page loaded with \<^verbatim>\<open>?code=xyz\<close> on an empty store.
\<close>

theorem verifier_missing_no_exchange_witness:
  "getItem (sessionStorage
       (example_page\<lparr>sessionStorage := [''pending_oauth_credentials'' \<mapsto> ''{creds}'']\<rparr>))
     ''oauth_code_verifier'' = None
   \<and> requests (handleOAuthCallback example_world
         (example_page\<lparr>sessionStorage := [''pending_oauth_credentials'' \<mapsto> ''{creds}'']\<rparr>)) = []
   \<and> error (handleOAuthCallback example_world
         (example_page\<lparr>sessionStorage := [''pending_oauth_credentials'' \<mapsto> ''{creds}'']\<rparr>))
       = Some ''PKCE code_verifier not found. Please try logging in again.''
   \<and> getItem (sessionStorage (handleOAuthCallback example_world
         (example_page\<lparr>sessionStorage := [''pending_oauth_credentials'' \<mapsto> ''{creds}'']\<rparr>)))
       ''pending_oauth_credentials'' = None
   \<and> getItem (sessionStorage (handleOAuthCallback example_world
         (example_page\<lparr>sessionStorage := [''pending_oauth_credentials'' \<mapsto> ''{creds}'']\<rparr>)))
       ''processed_oauth_code'' = None
   \<and> handleOAuthCallback example_world
         (example_page\<lparr>sessionStorage := Map.empty, search := [(''code'', ''xyz'')]\<rparr>)
       = example_page\<lparr>sessionStorage := [''processed_oauth_code'' \<mapsto> ''xyz''], search := []\<rparr>"
proof -
  let ?page = "example_page\<lparr>sessionStorage := [''pending_oauth_credentials'' \<mapsto> ''{creds}'']\<rparr>"
  let ?bare = "example_page\<lparr>sessionStorage := Map.empty, search := [(''code'', ''xyz'')]\<rparr>"
  have missing: "\<not> truthy (getItem (sessionStorage ?page) ''oauth_code_verifier'')"
    by (simp add: example_defs)
  have scene: "\<not> truthy (URLSearchParams_get (search ?page) ''error'')
         \<and> URLSearchParams_get (search ?page) ''code'' = Some ''abc123'' \<and> ''abc123'' \<noteq> []
         \<and> getItem (sessionStorage ?page) ''processed_oauth_code'' \<noteq> Some ''abc123''
         \<and> getItem (sessionStorage ?page) ''pending_oauth_credentials'' = Some ''{creds}''
         \<and> ''{creds}'' \<noteq> []
         \<and> parse_credentials (codec example_world) ''{creds}'' = Inr example_credentials
         \<and> type example_credentials = ''OneDrive'' \<and> onedrive example_credentials \<noteq> None"
    by (simp add: example_defs)
  have none: "getItem (sessionStorage ?page) ''oauth_code_verifier'' = None"
    "requests ?page = []"
    by (simp_all add: example_defs)
  from verifier_missing_no_exchange [OF missing, of example_world "''abc123''" "''{creds}''"
         example_credentials] scene none
  have first: "requests (handleOAuthCallback example_world ?page) = []
     \<and> error (handleOAuthCallback example_world ?page)
         = Some ''PKCE code_verifier not found. Please try logging in again.''
     \<and> getItem (sessionStorage (handleOAuthCallback example_world ?page))
           ''pending_oauth_credentials'' = None
     \<and> getItem (sessionStorage (handleOAuthCallback example_world ?page))
           ''processed_oauth_code'' = None"
    by simp
  have missing2: "\<not> truthy (getItem (sessionStorage ?bare) ''oauth_code_verifier'')"
    by (simp add: example_defs)
  have scene2: "\<not> truthy (URLSearchParams_get (search ?bare) ''error'')
         \<and> URLSearchParams_get (search ?bare) ''code'' = Some ''xyz'' \<and> ''xyz'' \<noteq> []
         \<and> getItem (sessionStorage ?bare) ''processed_oauth_code'' \<noteq> Some ''xyz''
         \<and> \<not> truthy (getItem (sessionStorage ?bare) ''pending_oauth_credentials'')"
    by (simp add: example_defs)
  from verifier_missing_no_exchange [OF missing2, of example_world "''xyz''"] scene2
  have "handleOAuthCallback example_world ?bare
          = ?bare\<lparr>sessionStorage := setItem (sessionStorage ?bare) ''processed_oauth_code'' ''xyz'',
                  search := []\<rparr>"
    by blast
  then have second: "handleOAuthCallback example_world ?bare
       = example_page\<lparr>sessionStorage := [''processed_oauth_code'' \<mapsto> ''xyz''], search := []\<rparr>"
    by (simp add: setItem_def)
  from none(1) first second show ?thesis by blast
qed

text \<open>
  C8. Whatever the credentials, the browser's \<^verbatim>\<open>JSON.parse\<close> reads back from the text
  of \<^verbatim>\<open>JSON.stringify\<close> the credentials that were written, equal in every field. Let
  \<open>handleConnect\<close> be called with OneDrive credentials that carry no token, so that it
  stores them and sends the browser to the provider, in a world whose JSON functions for
  credentials are the browser's. When the page is loaded again with a code that is not
  marked as processed, the text stored under \<^verbatim>\<open>pending_oauth_credentials\<close> is the one
  written, and the pending credentials the handler holds when it turns to the token
  endpoint are the original credentials.
\<close>

theorem pending_connection_round_trip:
  assumes "type creds = ''OneDrive''" "onedrive creds = Some od" "\<not> truthy (authToken od)"
    and "stringify_credentials (codec W) = JSON_stringify_credentials"
    and "parse_credentials (codec W2) = JSON_parse_credentials"
    and "c \<noteq> []" "getItem (sessionStorage st) ''processed_oauth_code'' \<noteq> Some c"
  shows "(\<forall>any. JSON_parse_credentials (JSON_stringify_credentials any) = Inr any)
       \<and> getItem (sessionStorage (page_load [(''code'', c)] (handleConnect W creds st)))
           ''pending_oauth_credentials'' = Some (JSON_stringify_credentials creds)
       \<and> (\<exists>st2. handleOAuthCallback_begin W2 (page_load [(''code'', c)] (handleConnect W creds st))
                   = AwaitExchange st2 creds)"
proof -
  let ?svc = "new_OneDriveOAuthService (or_empty (clientId od))
                (if truthy (redirectUri od) then the (redirectUri od) else origin W)"
  let ?v = "codeVerifier (getAuthUrlWithPKCE (digest W) (random W) ?svc)"
  let ?json = "JSON_stringify_credentials creds"
  let ?page = "page_load [(''code'', c)] (handleConnect W creds st)"
  have v: "?v = generateCodeVerifier (random W)"
    by (simp add: getAuthUrlWithPKCE_def Let_def)
  have store: "sessionStorage ?page
      = setItem (setItem (sessionStorage st) ''pending_oauth_credentials'' ?json)
          ''oauth_code_verifier'' ?v"
    using assms(1-4) by (simp add: page_load_def handleConnect_def Let_def)
  have q: "search ?page = [(''code'', c)]"
    by (simp add: page_load_def)
  have pending: "getItem (sessionStorage ?page) ''pending_oauth_credentials'' = Some ?json"
    unfolding store by (simp add: getItem_def setItem_def)
  have verifier: "getItem (sessionStorage ?page) ''oauth_code_verifier'' = Some ?v"
    unfolding store by (simp add: getItem_def setItem_def)
  have marker: "getItem (sessionStorage ?page) ''processed_oauth_code'' \<noteq> Some c"
    unfolding store using assms(7) by (simp add: getItem_def setItem_def)
  have parsed: "parse_credentials (codec W2) ?json = Inr creds"
    by (simp add: assms(5) JSON_credentials_round_trip)
  have "\<not> truthy (URLSearchParams_get (search ?page) ''error'')"
    "URLSearchParams_get (search ?page) ''code'' = Some c"
    unfolding q by (simp_all add: URLSearchParams_get_def)
  from handleOAuthCallback_begin_exchange
         [OF this assms(6) marker pending JSON_stringify_credentials_nonempty parsed
             assms(1) assms(2) verifier]
       generateCodeVerifier_nonempty [of "random W"] v
  have "\<exists>st2. handleOAuthCallback_begin W2 ?page = AwaitExchange st2 creds"
    by auto
  with pending JSON_credentials_round_trip show ?thesis by blast
qed

text \<open>
  The theorem at the example credentials, starting from an empty store, with the text
  that is stored and what the parser makes of it.
\<close>

theorem pending_connection_round_trip_witness:
  \<open>JSON_stringify_credentials example_credentials
     = ''{"type":"OneDrive","onedrive":{"clientId":"client-1","isPublic":true,"redirectUri":"http://localhost:5173","basePath":"/Apps/Joplin"}}''
   \<and> JSON_parse_credentials
       ''{"type":"OneDrive","onedrive":{"clientId":"client-1","isPublic":true,"redirectUri":"http://localhost:5173","basePath":"/Apps/Joplin"}}''
     = Inr example_credentials
   \<and> getItem (sessionStorage
         (page_load [(''code'', ''abc123'')]
            (handleConnect example_browser_world example_credentials
               (example_page\<lparr>sessionStorage := Map.empty, search := []\<rparr>))))
       ''pending_oauth_credentials''
     = Some ''{"type":"OneDrive","onedrive":{"clientId":"client-1","isPublic":true,"redirectUri":"http://localhost:5173","basePath":"/Apps/Joplin"}}''
   \<and> (\<exists>st2. handleOAuthCallback_begin example_browser_world
         (page_load [(''code'', ''abc123'')]
            (handleConnect example_browser_world example_credentials
               (example_page\<lparr>sessionStorage := Map.empty, search := []\<rparr>)))
        = AwaitExchange st2 example_credentials)\<close>
proof -
  let ?st = "example_page\<lparr>sessionStorage := Map.empty, search := []\<rparr>"
  have written: \<open>JSON_stringify_credentials example_credentials
     = ''{"type":"OneDrive","onedrive":{"clientId":"client-1","isPublic":true,"redirectUri":"http://localhost:5173","basePath":"/Apps/Joplin"}}''\<close>
    by code_simp
  have parsed: \<open>JSON_parse_credentials
       ''{"type":"OneDrive","onedrive":{"clientId":"client-1","isPublic":true,"redirectUri":"http://localhost:5173","basePath":"/Apps/Joplin"}}''
     = Inr example_credentials\<close>
    by code_simp
  have h: "type example_credentials = ''OneDrive''"
    "onedrive example_credentials = Some example_onedrive"
    "\<not> truthy (authToken example_onedrive)"
    "stringify_credentials (codec example_browser_world) = JSON_stringify_credentials"
    "parse_credentials (codec example_browser_world) = JSON_parse_credentials"
    "''abc123'' \<noteq> []"
    "getItem (sessionStorage ?st) ''processed_oauth_code'' \<noteq> Some ''abc123''"
    by (simp_all add: example_defs example_browser_world_def)
  from pending_connection_round_trip [OF h] written parsed
  show ?thesis by simp
qed

section \<open>Properties of the profile manager\<close>

lemma profile_key_not_active_key: "STORAGE_KEY_PREFIX @ pid \<noteq> ACTIVE_PROFILE_KEY"
  by (simp add: STORAGE_KEY_PREFIX_def ACTIVE_PROFILE_KEY_def)

lemma deleteProfile_active_id:
  "getActiveProfileId (deleteProfile pid ls) =
     (if getActiveProfileId ls = Some pid then None else getActiveProfileId ls)"
  using profile_key_not_active_key [of pid]
  by (auto simp: deleteProfile_def getActiveProfileId_def clearActiveProfile_def
      removeItem_def getItem_def Let_def)

lemma deleteProfile_other_record:
  "aid \<noteq> pid \<Longrightarrow>
   getItem (deleteProfile pid ls) (STORAGE_KEY_PREFIX @ aid) = getItem ls (STORAGE_KEY_PREFIX @ aid)"
  using profile_key_not_active_key [of aid]
  by (auto simp: deleteProfile_def getActiveProfileId_def clearActiveProfile_def
      removeItem_def getItem_def Let_def)

text \<open>
  C10. After \<open>deleteProfile pid\<close> the active-profile key never holds \<open>pid\<close>; if \<open>pid\<close> was
  the active profile, the key is cleared and \<open>getActiveProfile\<close> returns nothing; and a
  profile that \<open>getActiveProfile\<close> returns afterwards is parsed from a record that is still
  stored, under the key of an id other than \<open>pid\<close>.
\<close>

theorem deleteProfile_active_pointer:
  "getActiveProfileId (deleteProfile pid ls) \<noteq> Some pid
   \<and> (getActiveProfileId ls = Some pid \<longrightarrow>
        getItem (deleteProfile pid ls) ACTIVE_PROFILE_KEY = None
        \<and> getActiveProfile J (deleteProfile pid ls) = None)
   \<and> (\<forall>p. getActiveProfile J (deleteProfile pid ls) = Some p \<longrightarrow>
        (\<exists>aid data. getActiveProfileId (deleteProfile pid ls) = Some aid \<and> aid \<noteq> pid
           \<and> getItem (deleteProfile pid ls) (STORAGE_KEY_PREFIX @ aid) = Some data
           \<and> parse_profile J data = Inr p))"
proof (intro conjI allI impI)
  show "getActiveProfileId (deleteProfile pid ls) \<noteq> Some pid"
    by (simp add: deleteProfile_active_id)
next
  assume "getActiveProfileId ls = Some pid"
  then show "getItem (deleteProfile pid ls) ACTIVE_PROFILE_KEY = None"
    using deleteProfile_active_id [of pid ls] by (simp add: getActiveProfileId_def)
next
  assume "getActiveProfileId ls = Some pid"
  then show "getActiveProfile J (deleteProfile pid ls) = None"
    by (simp add: getActiveProfile_def deleteProfile_active_id)
next
  fix p
  assume got: "getActiveProfile J (deleteProfile pid ls) = Some p"
  then obtain aid where aid: "getActiveProfileId (deleteProfile pid ls) = Some aid"
    by (cases "getActiveProfileId (deleteProfile pid ls)") (auto simp: getActiveProfile_def)
  then have neq: "aid \<noteq> pid"
    by (auto simp: deleteProfile_active_id split: if_splits)
  from got aid have "getProfile J (deleteProfile pid ls) aid = Some p"
    by (auto simp: getActiveProfile_def split: if_splits)
  then obtain data where "getItem (deleteProfile pid ls) (STORAGE_KEY_PREFIX @ aid) = Some data"
    and "parse_profile J data = Inr p"
    by (cases "getItem (deleteProfile pid ls) (STORAGE_KEY_PREFIX @ aid)")
       (auto simp: getProfile_def Let_def split: if_splits sum.splits)
  with aid neq
  show "\<exists>aid data. getActiveProfileId (deleteProfile pid ls) = Some aid \<and> aid \<noteq> pid
           \<and> getItem (deleteProfile pid ls) (STORAGE_KEY_PREFIX @ aid) = Some data
           \<and> parse_profile J data = Inr p"
    by blast
qed

text \<open>
  The theorem at two stores holding the records of profiles \<open>a\<close> and \<open>profile_1_b\<close>. In the
  first \<open>a\<close> is active and is deleted: the key is cleared. In the second \<open>profile_1_b\<close> is
  active while \<open>a\<close> is deleted: the active profile is still returned.
\<close>

theorem deleteProfile_active_pointer_witness:
  "getActiveProfileId [ACTIVE_PROFILE_KEY \<mapsto> ''a'', STORAGE_KEY_PREFIX @ ''a'' \<mapsto> ''{}''] = Some ''a''
   \<and> getActiveProfile example_codec
        (deleteProfile ''a'' [ACTIVE_PROFILE_KEY \<mapsto> ''a'', STORAGE_KEY_PREFIX @ ''a'' \<mapsto> ''{}'']) = None
   \<and> getActiveProfile example_codec
        (deleteProfile ''a'' [ACTIVE_PROFILE_KEY \<mapsto> ''profile_1_b'',
           STORAGE_KEY_PREFIX @ ''a'' \<mapsto> ''{}'',
           STORAGE_KEY_PREFIX @ ''profile_1_b'' \<mapsto> ''{profile}'']) = Some example_profile
   \<and> getActiveProfileId
        (deleteProfile ''a'' [ACTIVE_PROFILE_KEY \<mapsto> ''profile_1_b'',
           STORAGE_KEY_PREFIX @ ''a'' \<mapsto> ''{}'',
           STORAGE_KEY_PREFIX @ ''profile_1_b'' \<mapsto> ''{profile}'']) \<noteq> Some ''a''"
proof -
  let ?s1 = "[ACTIVE_PROFILE_KEY \<mapsto> ''a'', STORAGE_KEY_PREFIX @ ''a'' \<mapsto> ''{}'']"
  let ?s2 = "[ACTIVE_PROFILE_KEY \<mapsto> ''profile_1_b'', STORAGE_KEY_PREFIX @ ''a'' \<mapsto> ''{}'',
              STORAGE_KEY_PREFIX @ ''profile_1_b'' \<mapsto> ''{profile}'']"
  have a: "getActiveProfileId ?s1 = Some ''a''"
    by (simp add: getActiveProfileId_def getItem_def ACTIVE_PROFILE_KEY_def STORAGE_KEY_PREFIX_def)
  have b: "getActiveProfile example_codec (deleteProfile ''a'' ?s2) = Some example_profile"
    by (simp add: getActiveProfile_def getProfile_def deleteProfile_def getActiveProfileId_def
        clearActiveProfile_def removeItem_def getItem_def ACTIVE_PROFILE_KEY_def
        STORAGE_KEY_PREFIX_def example_codec_def Let_def)
  from a b deleteProfile_active_pointer [of "''a''" ?s1 example_codec]
    deleteProfile_active_pointer [of "''a''" ?s2 example_codec]
  show ?thesis by simp
qed

section \<open>Properties of the storage service\<close>

lemma connect_body_handler:
  "connect_body L creds service = (r, service1) \<Longrightarrow> oauthFlowHandler service1 = oauthFlowHandler service"
  by (auto simp: connect_body_def Let_def split: sum.splits option.splits prod.splits)

text \<open>
  C9. When \<open>connect\<close> fails, whatever the credentials and whichever of the constructor,
  \<open>init\<close> or the test of the type threw, the service is left disconnected: the storage
  reference is null, \<open>isInitialized\<close> answers false, and the error handed to the caller
  is \<open>Failed to connect to T: ...\<close> with \<open>T\<close> the type of the credentials.
\<close>

theorem connect_failure_leaves_disconnected:
  "connect L creds service = (Some e, service1) \<Longrightarrow>
     storage service1 = None \<and> \<not> isInitialized service1
     \<and> (\<exists>m. e = JsError (''Failed to connect to '' @ type creds @ '': '' @ m))"
  by (auto simp: connect_def isInitialized_def split: prod.splits option.splits)

theorem connect_failure_leaves_disconnected_witness:
  "connect example_library example_credentials
       \<lparr> storage = Some \<lparr> storage_kind = ''WebDAV'', storage_opts = FilesystemOptions [] \<rparr>,
         initialized = True, oauthFlowHandler = True \<rparr>
     = (Some (JsError ''Failed to connect to OneDrive: folder not found''),
        \<lparr> storage = None, initialized = False, oauthFlowHandler = True \<rparr>)
   \<and> \<not> isInitialized \<lparr> storage = None, initialized = False, oauthFlowHandler = True \<rparr>"
proof -
  have run: "connect example_library example_credentials
       \<lparr> storage = Some \<lparr> storage_kind = ''WebDAV'', storage_opts = FilesystemOptions [] \<rparr>,
         initialized = True, oauthFlowHandler = True \<rparr>
     = (Some (JsError ''Failed to connect to OneDrive: folder not found''),
        \<lparr> storage = None, initialized = False, oauthFlowHandler = True \<rparr>)"
    by (simp add: connect_def connect_body_def storage_arguments_def example_library_def
        example_credentials_def example_onedrive_def Let_def)
  from connect_failure_leaves_disconnected [OF run] run show ?thesis by simp
qed

end
